theory Spec2Isabelle
  imports Main "HOL-Library.Word"
begin

section \<open>The group store\<close>

text \<open>
  Modelled from the spec: the group store. The module \<^verbatim>\<open>silx/io/nxdata.py\<close> works on
  h5py-like objects; their classes and the functions \<^verbatim>\<open>is_group\<close> and \<^verbatim>\<open>is_dataset\<close> of
  \<^verbatim>\<open>silx/io/utils.py\<close> are not among the sources. As the specification describes it, a
  group has attributes and named children, a child is a group or a dataset, and a dataset
  has a shape, attributes and numeric content.

  What \<^verbatim>\<open>attrs.get\<close> returns is one of four kinds of object:
  \<^item> a string;
  \<^item> a Python list of names, some of which may be None: a store that keeps its attributes
    in a dict returns the list it holds, so a write into that list is a write into the
    store;
  \<^item> a numpy array of one or more names, each a \<^verbatim>\<open>str\<close>: h5py reads the attribute from the
    file into a new array on every read, so a write into it stays with the reader;
  \<^item> an integer, which h5py returns as \<^verbatim>\<open>numpy.int64\<close>: its arithmetic wraps around.

  Attribute tables and child tables are association lists read with \<^const>\<open>map_of\<close>;
  the order of a child table is the order in which the group iterates over its members.
\<close>

datatype attr =
    AStr string
  | AList "string option list"
  | AArray string "string list"
  | AInt "64 word"

type_synonym attrs = "(string \<times> attr) list"

record dataset =
  shape :: "nat list"
  attrs :: attrs
  content :: "int list"

datatype node = Dataset dataset | Group attrs "(string \<times> node) list"

text \<open>The result of slicing a dataset: a numpy array with its own shape.\<close>

record ndarray =
  nd_shape :: "nat list"
  nd_data :: "int list"

datatype error = TypeError | KeyError | AssertionError | AttributeError | IndexError | ValueError

fun node_attrs :: "node \<Rightarrow> attrs" where
  "node_attrs (Dataset d) = attrs d"
| "node_attrs (Group ga gc) = ga"

text \<open>The members of a group; a dataset has none.\<close>

fun members :: "node \<Rightarrow> (string \<times> node) list" where
  "members (Group ga gc) = gc"
| "members (Dataset d) = []"

text \<open>
  Modelled from the spec: \<^verbatim>\<open>group[name]\<close> and \<^verbatim>\<open>name in group\<close> for a name taken from a
  list, where it may be None. None is the name of no member: the test is False and the
  lookup raises KeyError.
\<close>

definition child :: "(string \<times> node) list \<Rightarrow> string option \<Rightarrow> node option" where
  "child gc name = (case name of None \<Rightarrow> None | Some s \<Rightarrow> map_of gc s)"

text \<open>Modelled from the spec: \<^verbatim>\<open>is_dataset\<close> and \<^verbatim>\<open>is_group\<close> tell the two kinds of node
  apart.\<close>

definition is_dataset :: "node \<Rightarrow> bool" where
  "is_dataset n = (case n of Dataset d \<Rightarrow> True | Group ga gc \<Rightarrow> False)"

definition is_group :: "node \<Rightarrow> bool" where
  "is_group n = (case n of Dataset d \<Rightarrow> False | Group ga gc \<Rightarrow> True)"

text \<open>The items of an array.\<close>

definition array_items :: "string \<Rightarrow> string list \<Rightarrow> string list" where
  "array_items t ts = t # ts"

text \<open>
  Replacing the value of a key that a table holds: the write that a store sees when the
  object it handed out is changed in place.
\<close>

fun update_first :: "string \<Rightarrow> 'v \<Rightarrow> (string \<times> 'v) list \<Rightarrow> (string \<times> 'v) list" where
  "update_first k x [] = []"
| "update_first k x ((k', y) # rest) =
     (if k' = k then (k', x) # rest else (k', y) # update_first k x rest)"

text \<open>The product of a shape, as the loops \<^verbatim>\<open>for dim in shape: size *= dim\<close> compute it.\<close>

definition shape_size :: "nat list \<Rightarrow> int" where
  "shape_size sh = int (prod_list sh)"

text \<open>\<^verbatim>\<open>len(dataset)\<close> is the first dimension; a scalar dataset has none.\<close>

definition dataset_len :: "dataset \<Rightarrow> error + int" where
  "dataset_len d = (case shape d of [] \<Rightarrow> Inl TypeError | n # rest \<Rightarrow> Inr (int n))"

text \<open>\<^verbatim>\<open>len(group[name])\<close> for any child: a group counts its members.\<close>

definition node_len :: "node \<Rightarrow> error + int" where
  "node_len n = (case n of Dataset d \<Rightarrow> dataset_len d | Group ga gc \<Rightarrow> Inr (int (length gc)))"

text \<open>\<^verbatim>\<open>node.shape\<close>: a group has no such attribute.\<close>

definition node_shape :: "node \<Rightarrow> error + nat list" where
  "node_shape n = (case n of Dataset d \<Rightarrow> Inr (shape d) | Group ga gc \<Rightarrow> Inl AttributeError)"

text \<open>
  Python's slice bounds: a negative bound counts from the end, and both bounds are
  clamped to the length.
\<close>

definition slice_bound :: "int \<Rightarrow> nat \<Rightarrow> nat" where
  "slice_bound i n = (if i < 0 then nat (max (i + int n) 0) else min (nat i) n)"

text \<open>
  \<^verbatim>\<open>dataset[start:stop]\<close>: a slice along the first dimension. The content is stored row
  by row, so the slice keeps whole rows. A scalar dataset cannot be sliced.
\<close>

definition dataset_slice :: "dataset \<Rightarrow> int \<Rightarrow> int \<Rightarrow> error + ndarray" where
  "dataset_slice d start stop =
     (case shape d of
        [] \<Rightarrow> Inl ValueError
      | n # rest \<Rightarrow>
          (let a = slice_bound start n;
               b = slice_bound stop n;
               k = b - a;
               row = prod_list rest
           in Inr \<lparr>nd_shape = k # rest,
                   nd_data = take (k * row) (drop (a * row) (content d))\<rparr>))"

definition node_slice :: "node \<Rightarrow> int \<Rightarrow> int \<Rightarrow> error + ndarray" where
  "node_slice n start stop =
     (case n of Dataset d \<Rightarrow> dataset_slice d start stop | Group ga gc \<Rightarrow> Inl TypeError)"

section \<open>Python and numpy values\<close>

text \<open>
  An attribute that holds one name or a sequence of names, after
  \<^verbatim>\<open>if isinstance(x, str): x = [x]\<close>, as \<^verbatim>\<open>len\<close> and \<^verbatim>\<open>enumerate\<close> read it; both raise
  TypeError on an integer.
\<close>

definition names_of :: "attr \<Rightarrow> error + string option list" where
  "names_of a =
     (case a of
        AStr s \<Rightarrow> Inr [Some s]
      | AList l \<Rightarrow> Inr l
      | AArray t ts \<Rightarrow> Inr (map Some (array_items t ts))
      | AInt i \<Rightarrow> Inl TypeError)"

text \<open>
  The truth value of \<^verbatim>\<open>x == s\<close> and of \<^verbatim>\<open>x != s\<close> for a string \<^verbatim>\<open>s\<close>. An array is compared
  item by item, and the truth value of an array of several items is a ValueError.
\<close>

definition eq_str :: "attr \<Rightarrow> string \<Rightarrow> error + bool" where
  "eq_str x s =
     (case x of
        AStr t \<Rightarrow> Inr (t = s)
      | AList l \<Rightarrow> Inr False
      | AInt i \<Rightarrow> Inr False
      | AArray t ts \<Rightarrow> (if ts = [] then Inr (t = s) else Inl ValueError))"

definition ne_str :: "attr \<Rightarrow> string \<Rightarrow> error + bool" where
  "ne_str x s =
     (case x of
        AStr t \<Rightarrow> Inr (t \<noteq> s)
      | AList l \<Rightarrow> Inr True
      | AInt i \<Rightarrow> Inr True
      | AArray t ts \<Rightarrow> (if ts = [] then Inr (t \<noteq> s) else Inl ValueError))"

text \<open>The value of an integer in 64 bits, two's complement.\<close>

definition wrap64 :: "int \<Rightarrow> int" where
  "wrap64 x = sint (word_of_int x :: 64 word)"

text \<open>An integer attribute with a default, used in arithmetic right after the read.\<close>

definition int_attr :: "attrs \<Rightarrow> string \<Rightarrow> int \<Rightarrow> error + int" where
  "int_attr tab key dflt =
     (case map_of tab key of
        None \<Rightarrow> Inr dflt
      | Some (AInt i) \<Rightarrow> Inr (sint i)
      | Some (AStr s) \<Rightarrow> Inl TypeError
      | Some (AList l) \<Rightarrow> Inl TypeError
      | Some (AArray t ts) \<Rightarrow> Inl TypeError)"

text \<open>
  A value the module computes with: a Python integer of its own, which is exact, or what
  an attribute read returned.
\<close>

datatype pyval = PyInt int | Stored attr

text \<open>\<^verbatim>\<open>x + 1\<close>: exact for a Python integer, wrapping for \<^verbatim>\<open>numpy.int64\<close>.\<close>

definition plus_one :: "pyval \<Rightarrow> error + int" where
  "plus_one x =
     (case x of
        PyInt i \<Rightarrow> Inr (i + 1)
      | Stored (AInt w) \<Rightarrow> Inr (sint (w + 1))
      | Stored (AStr s) \<Rightarrow> Inl TypeError
      | Stored (AList l) \<Rightarrow> Inl TypeError
      | Stored (AArray t ts) \<Rightarrow> Inl TypeError)"

text \<open>A value used as the bound of a slice.\<close>

definition as_index :: "pyval \<Rightarrow> error + int" where
  "as_index x =
     (case x of
        PyInt i \<Rightarrow> Inr i
      | Stored (AInt w) \<Rightarrow> Inr (sint w)
      | Stored (AStr s) \<Rightarrow> Inl TypeError
      | Stored (AList l) \<Rightarrow> Inl TypeError
      | Stored (AArray t ts) \<Rightarrow> Inl TypeError)"


text \<open>Python's truth value of an attribute, as \<^verbatim>\<open>x or default\<close> tests it.\<close>

definition truthy :: "attr \<Rightarrow> error + bool" where
  "truthy a =
     (case a of
        AInt i \<Rightarrow> Inr (i \<noteq> 0)
      | AStr s \<Rightarrow> Inr (s \<noteq> [])
      | AList l \<Rightarrow> Inr (l \<noteq> [])
      | AArray t ts \<Rightarrow> (if ts = [] then Inr (t \<noteq> []) else Inl ValueError))"

text \<open>\<^verbatim>\<open>attrs.get(key) or default\<close>, the default being computed only when it is used.\<close>

definition get_or :: "attrs \<Rightarrow> string \<Rightarrow> (error + pyval) \<Rightarrow> error + pyval" where
  "get_or tab key dflt =
     (case map_of tab key of
        None \<Rightarrow> dflt
      | Some a \<Rightarrow>
          (case truthy a of
             Inl e \<Rightarrow> Inl e
           | Inr True \<Rightarrow> Inr (Stored a)
           | Inr False \<Rightarrow> dflt))"

text \<open>\<^verbatim>\<open>x[fg_idx:lg_idx + 1]\<close>: the sum first, then the slice.\<close>

definition slice_val :: "node \<Rightarrow> pyval \<Rightarrow> pyval \<Rightarrow> error + ndarray" where
  "slice_val n fg_idx lg_idx =
     (case plus_one lg_idx of
        Inl e \<Rightarrow> Inl e
      | Inr stop \<Rightarrow>
          (case as_index fg_idx of
             Inl e \<Rightarrow> Inl e
           | Inr start \<Rightarrow> node_slice n start stop))"

definition INTERPDIM :: "string \<Rightarrow> nat option" where
  "INTERPDIM = map_of [(''scalar'', 0), (''spectrum'', 1), (''image'', 2), (''vertex'', 1)]"

text \<open>
  \<^verbatim>\<open>INTERPDIM[x]\<close> for what the property \<^verbatim>\<open>interpretation\<close> returned: KeyError for None and
  for a string that is no key, TypeError for an array, which cannot be hashed.
\<close>

definition interpdim :: "attr option \<Rightarrow> error + nat" where
  "interpdim x =
     (case x of
        None \<Rightarrow> Inl KeyError
      | Some (AStr s) \<Rightarrow> (case INTERPDIM s of None \<Rightarrow> Inl KeyError | Some k \<Rightarrow> Inr k)
      | Some (AList l) \<Rightarrow> Inl TypeError
      | Some (AArray t ts) \<Rightarrow> Inl TypeError
      | Some (AInt i) \<Rightarrow> Inl KeyError)"

section \<open>The validator\<close>

text \<open>One constructor for each warning the validator logs before it returns False; a
  name is in the message as \<^verbatim>\<open>'%s'\<close> prints it.\<close>

datatype warning =
    NoSignalAttr
  | SignalNotFound
  | MoreAxesThanDims
  | NoInterpretation
  | UnrecognizedInterpretation
  | WrongNumberOfAxes
  | UncertaintiesLength
  | AxisNotFound string
  | AxisNot1D string
  | AxisLength string
  | NotAScatter string
  | AxisErrorsShape string string
  | SignalErrorsShape

text \<open>
  Lines 102-120: fewer axes than dimensions. The result is the warning logged, or None
  when the check passes. \<^verbatim>\<open>interpretation not in INTERPDIM\<close> raises on a list or an array
  (they cannot be hashed), and the message of the warning cannot be built from an integer.
\<close>

definition check_interpretation :: "attrs \<Rightarrow> dataset \<Rightarrow> nat \<Rightarrow> error + warning option" where
  "check_interpretation ga sig n_axes =
     (let interpretation =
            (case map_of (attrs sig) ''interpretation'' of
               None \<Rightarrow> map_of ga ''interpretation''
             | Some a \<Rightarrow> Some a)
      in case interpretation of
           None \<Rightarrow> Inr (Some NoInterpretation)
         | Some (AList l) \<Rightarrow> Inl TypeError
         | Some (AArray t ts) \<Rightarrow> Inl TypeError
         | Some (AInt i) \<Rightarrow> Inl TypeError
         | Some (AStr s) \<Rightarrow>
             (case INTERPDIM s of
                None \<Rightarrow> Inr (Some UnrecognizedInterpretation)
              | Some k \<Rightarrow> if n_axes \<noteq> k then Inr (Some WrongNumberOfAxes) else Inr None))"

text \<open>Lines 123-127: @uncertainties of the group, else of the signal, as a list of names.\<close>

definition uncertainties_names_of :: "attrs \<Rightarrow> dataset \<Rightarrow> error + string option list option" where
  "uncertainties_names_of ga sig =
     (let u = (case map_of ga ''uncertainties'' of
                 None \<Rightarrow> map_of (attrs sig) ''uncertainties''
               | Some a \<Rightarrow> Some a)
      in case u of
           None \<Rightarrow> Inr None
         | Some a \<Rightarrow> (case names_of a of Inl e \<Rightarrow> Inl e | Inr l \<Rightarrow> Inr (Some l)))"

text \<open>
  Lines 161-163: \<^verbatim>\<open>lg_idx + 1 - fg_idx\<close> for an axis of length \<^verbatim>\<open>len\<close>. With neither attribute
  the operands are Python integers; an operand read from an attribute is a
  \<^verbatim>\<open>numpy.int64\<close>, and so is the result.
\<close>

definition good_length :: "attrs \<Rightarrow> int \<Rightarrow> error + int" where
  "good_length tab len =
     (case int_attr tab ''last_good'' (len - 1) of
        Inl e \<Rightarrow> Inl e
      | Inr lg_idx \<Rightarrow>
          (case int_attr tab ''first_good'' 0 of
             Inl e \<Rightarrow> Inl e
           | Inr fg_idx \<Rightarrow>
               Inr (if map_of tab ''first_good'' = None \<and> map_of tab ''last_good'' = None
                    then lg_idx + 1 - fg_idx
                    else wrap64 (lg_idx + 1 - fg_idx))))"

text \<open>
  Lines 143-163: the length of one axis. The result is a warning when the validator
  returns False here, else \<^verbatim>\<open>axis_len\<close>.
\<close>

definition axis_len_of :: "(string \<times> node) list \<Rightarrow> int \<Rightarrow> string \<Rightarrow> error + (warning + int)" where
  "axis_len_of gc signal_size axis_name =
     (case map_of gc axis_name of
        None \<Rightarrow> Inr (Inl (AxisNotFound axis_name))
      | Some (Group a c) \<Rightarrow> Inr (Inl (AxisNotFound axis_name))
      | Some (Dataset ax) \<Rightarrow>
          (let axis_size = shape_size (shape ax) in
           if length (shape ax) \<noteq> 1 then
             (if axis_size \<noteq> signal_size then Inr (Inl (AxisNot1D axis_name))
              else Inr (Inr axis_size))
           else
             (case good_length (attrs ax) (int (hd (shape ax))) of
                Inl e \<Rightarrow> Inl e
              | Inr axis_len \<Rightarrow> Inr (Inr axis_len))))"

text \<open>
  Lines 184-193: the errors of one axis. The shape is compared only for the name taken
  from @uncertainties, in the branch where no child \<^verbatim>\<open><axis_name>_errors\<close> exists.
\<close>

definition check_axis_errors ::
  "(string \<times> node) list \<Rightarrow> string option list option \<Rightarrow> nat \<Rightarrow> string \<Rightarrow> string list
     \<Rightarrow> error + warning option" where
  "check_axis_errors gc uncertainties_names i axis_name polynomial_axes_names =
     (case uncertainties_names of
        None \<Rightarrow> Inr None
      | Some us \<Rightarrow>
          if map_of gc (axis_name @ ''_errors'') \<noteq> None then Inr None
          else if \<not> i < length us then Inl IndexError
          else
            (case us ! i of
               None \<Rightarrow> Inr None
             | Some errors_name \<Rightarrow>
                 (case map_of gc errors_name of
                    None \<Rightarrow> Inr None
                  | Some en \<Rightarrow>
                      if axis_name \<in> set polynomial_axes_names then Inr None
                      else
                        (case node_shape en of
                           Inl e \<Rightarrow> Inl e
                         | Inr esh \<Rightarrow>
                             (case map_of gc axis_name of
                                None \<Rightarrow> Inl KeyError
                              | Some an \<Rightarrow>
                                  (case node_shape an of
                                     Inl e \<Rightarrow> Inl e
                                   | Inr ash \<Rightarrow>
                                       if esh \<noteq> ash
                                       then Inr (Some (AxisErrorsShape errors_name axis_name))
                                       else Inr None))))))"

text \<open>
  Lines 135-193: the loop over \<^verbatim>\<open>enumerate(axes_names)\<close>, with the variables
  \<^verbatim>\<open>is_scatter\<close> and \<^verbatim>\<open>polynomial_axes_names\<close> it updates. The result is the warning of
  the first axis that makes the validator return False, or None. A name that is None is
  not "." and is no member of the group.
\<close>

fun axes_loop ::
  "(string \<times> node) list \<Rightarrow> dataset \<Rightarrow> string option list option \<Rightarrow> nat \<Rightarrow> string option list
     \<Rightarrow> bool \<Rightarrow> string list \<Rightarrow> error + warning option" where
  "axes_loop gc sig us i [] is_scatter poly = Inr None"
| "axes_loop gc sig us i (None # rest) is_scatter poly = Inr (Some (AxisNotFound ''None''))"
| "axes_loop gc sig us i (Some axis_name # rest) is_scatter poly =
     (if axis_name = ''.'' then axes_loop gc sig us (Suc i) rest is_scatter poly
      else
        (case axis_len_of gc (shape_size (shape sig)) axis_name of
           Inl e \<Rightarrow> Inl e
         | Inr (Inl w) \<Rightarrow> Inr (Some w)
         | Inr (Inr axis_len) \<Rightarrow>
             if axis_len \<noteq> shape_size (shape sig) then
               (if axis_len \<notin> set (map int (shape sig) @ [1, 2])
                then Inr (Some (AxisLength axis_name))
                else
                  (let poly' = (if axis_len \<in> {1, 2} then poly @ [axis_name] else poly) in
                   case check_axis_errors gc us i axis_name poly' of
                     Inl e \<Rightarrow> Inl e
                   | Inr (Some w) \<Rightarrow> Inr (Some w)
                   | Inr None \<Rightarrow> axes_loop gc sig us (Suc i) rest False poly'))
             else
               (if \<not> is_scatter then Inr (Some (NotAScatter axis_name))
                else
                  (case check_axis_errors gc us i axis_name poly of
                     Inl e \<Rightarrow> Inl e
                   | Inr (Some w) \<Rightarrow> Inr (Some w)
                   | Inr None \<Rightarrow> axes_loop gc sig us (Suc i) rest is_scatter poly))))"

text \<open>Lines 87-193: everything the validator does when the group has @axes.\<close>

definition check_axes :: "attrs \<Rightarrow> (string \<times> node) list \<Rightarrow> dataset \<Rightarrow> attr \<Rightarrow> error + warning option" where
  "check_axes ga gc sig axes_attr =
     (let ndim = length (shape sig) in
      case names_of axes_attr of
        Inl e \<Rightarrow> Inl e
      | Inr axes_names \<Rightarrow>
          if 1 < ndim \<and> ndim < length axes_names then Inr (Some MoreAxesThanDims)
          else
            (case (if ndim > length axes_names
                   then check_interpretation ga sig (length axes_names) else Inr None) of
               Inl e \<Rightarrow> Inl e
             | Inr (Some w) \<Rightarrow> Inr (Some w)
             | Inr None \<Rightarrow>
                 (case uncertainties_names_of ga sig of
                    Inl e \<Rightarrow> Inl e
                  | Inr us \<Rightarrow>
                      if (case us of None \<Rightarrow> False | Some l \<Rightarrow> length l \<noteq> length axes_names)
                      then Inr (Some UncertaintiesLength)
                      else axes_loop gc sig us 0 axes_names True [])))"

text \<open>Lines 196-200: the errors of the signal, compared only when the child is a dataset.\<close>

definition check_signal_errors :: "(string \<times> node) list \<Rightarrow> dataset \<Rightarrow> warning option" where
  "check_signal_errors gc sig =
     (case map_of gc ''errors'' of
        Some (Dataset e) \<Rightarrow> if shape e \<noteq> shape sig then Some SignalErrorsShape else None
      | Some (Group a c) \<Rightarrow> None
      | None \<Rightarrow> None)"

text \<open>
  Line 73: \<^verbatim>\<open>group.attrs.get("NX_class") != "NXdata"\<close>; without the attribute None is
  compared, and differs.
\<close>

definition not_NXdata :: "attrs \<Rightarrow> error + bool" where
  "not_NXdata ga =
     (case map_of ga ''NX_class'' of None \<Rightarrow> Inr True | Some x \<Rightarrow> ne_str x ''NXdata'')"

text \<open>
  \<^verbatim>\<open>is_valid_NXdata\<close> with its log: the boolean it returns and the warnings it logged,
  or the exception it raised. A signal name that is not a string cannot be looked up in
  the group.
\<close>

definition is_valid_NXdata_log :: "node \<Rightarrow> error + bool \<times> warning list" where
  "is_valid_NXdata_log grp =
     (case grp of
        Dataset d \<Rightarrow> Inl TypeError
      | Group ga gc \<Rightarrow>
          (case not_NXdata ga of
             Inl e \<Rightarrow> Inl e
           | Inr True \<Rightarrow> Inr (False, [])
           | Inr False \<Rightarrow>
               (case map_of ga ''signal'' of
                  None \<Rightarrow> Inr (False, [NoSignalAttr])
                | Some (AList l) \<Rightarrow> Inl TypeError
                | Some (AArray t ts) \<Rightarrow> Inl TypeError
                | Some (AInt i) \<Rightarrow> Inl TypeError
                | Some (AStr signal_name) \<Rightarrow>
                    (case map_of gc signal_name of
                       None \<Rightarrow> Inr (False, [SignalNotFound])
                     | Some (Group a c) \<Rightarrow> Inr (False, [SignalNotFound])
                     | Some (Dataset sig) \<Rightarrow>
                         (case (case map_of ga ''axes'' of
                                  None \<Rightarrow> Inr None
                                | Some axes_attr \<Rightarrow> check_axes ga gc sig axes_attr) of
                            Inl e \<Rightarrow> Inl e
                          | Inr (Some w) \<Rightarrow> Inr (False, [w])
                          | Inr None \<Rightarrow>
                              (case check_signal_errors gc sig of
                                 Some w \<Rightarrow> Inr (False, [w])
                               | None \<Rightarrow> Inr (True, [])))))))"

definition is_valid_NXdata :: "node \<Rightarrow> error + bool" where
  "is_valid_NXdata grp = map_sum id fst (is_valid_NXdata_log grp)"

section \<open>The view\<close>

text \<open>
  An entry of the list of axes is a child of the group as it is, or the array that
  slicing it gave.
\<close>

datatype data_ref = Node node | Array ndarray

text \<open>
  The object \<^verbatim>\<open>NXdata\<close>. The fields \<^verbatim>\<open>_is_scatter\<close> and \<^verbatim>\<open>_axes\<close> are the two caches. A
  property that writes takes the view and returns it as the write left it; the field
  \<^verbatim>\<open>nx_group\<close> is the group in the state the store is in, and \<^verbatim>\<open>signal\<close> is the member of
  the group that @signal names.
\<close>

record NXdata =
  nx_group :: node
  signal :: dataset
  signal_is_0D :: bool
  signal_is_1D :: bool
  signal_is_2D :: bool
  signal_is_3D :: bool
  axes_names :: "attr option list"
  cache_is_scatter :: "bool option"
  cache_axes :: "data_ref option list option"

definition allowed_interpretations :: "string option list" where
  "allowed_interpretations =
     [None, Some ''scalar'', Some ''spectrum'', Some ''image'', Some ''vertex'']"

text \<open>
  Lines 270-281. For a value outside the allowed ones the property builds a warning with
  \<^verbatim>\<open>", ".join(allowed_interpretations)\<close>; the first item of that list is None, on which
  \<^verbatim>\<open>join\<close> raises TypeError, so the value is never returned. The test
  \<^verbatim>\<open>interpretation not in allowed_interpretations\<close> compares with \<^verbatim>\<open>==\<close>: an array of one
  allowed name passes it, and an array of several names has no truth value.
\<close>

definition interpretation_prop :: "NXdata \<Rightarrow> error + attr option" where
  "interpretation_prop v =
     (let i = (case map_of (attrs (signal v)) ''interpretation'' of
                 None \<Rightarrow> map_of (node_attrs (nx_group v)) ''interpretation''
               | Some a \<Rightarrow> Some a)
      in case i of
           None \<Rightarrow> Inr None
         | Some (AStr s) \<Rightarrow>
             if Some s \<in> set allowed_interpretations then Inr (Some (AStr s)) else Inl TypeError
         | Some (AList l) \<Rightarrow> Inl TypeError
         | Some (AInt n) \<Rightarrow> Inl TypeError
         | Some (AArray t ts) \<Rightarrow>
             if ts \<noteq> [] then Inl ValueError
             else if Some t \<in> set allowed_interpretations then Inr (Some (AArray t []))
             else Inl TypeError)"

text \<open>\<^verbatim>\<open>self.group[axis_n]\<close> for every name but ".", in the order of the list.\<close>

fun lookup_axes :: "(string \<times> node) list \<Rightarrow> string option list \<Rightarrow> error + node option list" where
  "lookup_axes gc [] = Inr []"
| "lookup_axes gc (axis_n # rest) =
     (if axis_n \<noteq> Some ''.'' then
        (case child gc axis_n of
           None \<Rightarrow> Inl KeyError
         | Some n \<Rightarrow> (case lookup_axes gc rest of Inl e \<Rightarrow> Inl e | Inr l \<Rightarrow> Inr (Some n # l)))
      else (case lookup_axes gc rest of Inl e \<Rightarrow> Inl e | Inr l \<Rightarrow> Inr (None # l)))"

text \<open>Lines 328-350: the three ways to lay the names out over the dimensions.\<close>

definition resolve_axes ::
  "(string \<times> node) list \<Rightarrow> nat \<Rightarrow> attr option \<Rightarrow> string option list
     \<Rightarrow> error + node option list" where
  "resolve_axes gc ndims interp names =
     (if length names = ndims then lookup_axes gc names
      else if interp \<noteq> None then
        (case interpdim interp of
           Inl e \<Rightarrow> Inl e
         | Inr k \<Rightarrow>
             if length names \<noteq> k then Inl AssertionError
             else (case lookup_axes gc names of
                     Inl e \<Rightarrow> Inl e
                   | Inr l \<Rightarrow> Inr (replicate (ndims - k) None @ l)))
      else lookup_axes gc names)"

text \<open>Lines 353-359 for one axis that is not None.\<close>

definition keep_good_range :: "node \<Rightarrow> error + data_ref" where
  "keep_good_range axis =
     (let tab = node_attrs axis in
      if map_of tab ''first_good'' = None \<and> map_of tab ''last_good'' = None then Inr (Node axis)
      else
        (case get_or tab ''first_good'' (Inr (PyInt 0)) of
           Inl e \<Rightarrow> Inl e
         | Inr fg_idx \<Rightarrow>
             (case get_or tab ''last_good''
                     (case node_len axis of Inl e \<Rightarrow> Inl e | Inr n \<Rightarrow> Inr (PyInt (n - 1))) of
                Inl e \<Rightarrow> Inl e
              | Inr lg_idx \<Rightarrow>
                  (case slice_val axis fg_idx lg_idx of
                     Inl e \<Rightarrow> Inl e
                   | Inr a \<Rightarrow> Inr (Array a)))))"

text \<open>Lines 352-359: the loop over the axes.\<close>

fun good_ranges :: "node option list \<Rightarrow> error + data_ref option list" where
  "good_ranges [] = Inr []"
| "good_ranges (None # rest) =
     (case good_ranges rest of Inl e \<Rightarrow> Inl e | Inr l \<Rightarrow> Inr (None # l))"
| "good_ranges (Some axis # rest) =
     (case keep_good_range axis of
        Inl e \<Rightarrow> Inl e
      | Inr a \<Rightarrow> (case good_ranges rest of Inl e \<Rightarrow> Inl e | Inr l \<Rightarrow> Inr (Some a # l)))"

text \<open>The property \<^verbatim>\<open>axes\<close>, lines 314-362. It reads @axes of the group only.\<close>

definition axes :: "NXdata \<Rightarrow> (error + data_ref option list) \<times> NXdata" where
  "axes v =
     (case cache_axes v of
        Some a \<Rightarrow> (Inr a, v)
      | None \<Rightarrow>
          (let ndims = length (shape (signal v)) in
           case interpretation_prop v of
             Inl e \<Rightarrow> (Inl e, v)
           | Inr interp \<Rightarrow>
               (case map_of (node_attrs (nx_group v)) ''axes'' of
                  None \<Rightarrow> (Inr (replicate ndims None), v\<lparr>cache_axes := Some (replicate ndims None)\<rparr>)
                | Some axes_attr \<Rightarrow>
                    (case names_of axes_attr of
                       Inl e \<Rightarrow> (Inl e, v)
                     | Inr names \<Rightarrow>
                         (case resolve_axes (members (nx_group v)) ndims interp names of
                            Inl e \<Rightarrow> (Inl e, v)
                          | Inr nodes \<Rightarrow>
                              (case good_ranges nodes of
                                 Inl e \<Rightarrow> (Inl e, v)
                               | Inr a \<Rightarrow> (Inr a, v\<lparr>cache_axes := Some a\<rparr>)))))))"

text \<open>\<^verbatim>\<open>axis.shape\<close> of an entry.\<close>

definition ref_shape :: "data_ref \<Rightarrow> error + nat list" where
  "ref_shape r = (case r of Node n \<Rightarrow> node_shape n | Array a \<Rightarrow> Inr (nd_shape a))"

text \<open>
  Lines 485-491: the loop of \<^verbatim>\<open>is_scatter\<close>. It writes \<^verbatim>\<open>self._is_scatter\<close> at every
  axis, so the result is the last value written together with the exception, if any.
\<close>

fun scatter_loop :: "int \<Rightarrow> data_ref option list \<Rightarrow> bool \<Rightarrow> error option \<times> bool" where
  "scatter_loop sigsize [] acc = (None, acc)"
| "scatter_loop sigsize (None # rest) acc = scatter_loop sigsize rest acc"
| "scatter_loop sigsize (Some axis # rest) acc =
     (case ref_shape axis of
        Inl e \<Rightarrow> (Some e, acc)
      | Inr sh \<Rightarrow> scatter_loop sigsize rest (acc \<and> shape_size sh = sigsize))"

text \<open>The property \<^verbatim>\<open>is_scatter\<close>, lines 476-492.\<close>

definition is_scatter :: "NXdata \<Rightarrow> (error + bool) \<times> NXdata" where
  "is_scatter v =
     (case cache_is_scatter v of
        Some b \<Rightarrow> (Inr b, v)
      | None \<Rightarrow>
          if \<not> signal_is_1D v then (Inr False, v\<lparr>cache_is_scatter := Some False\<rparr>)
          else
            (case axes (v\<lparr>cache_is_scatter := Some True\<rparr>) of
               (Inl e, v') \<Rightarrow> (Inl e, v')
             | (Inr a, v') \<Rightarrow>
                 (case scatter_loop (shape_size (shape (signal v))) a True of
                    (Some e, b) \<Rightarrow> (Inl e, v'\<lparr>cache_is_scatter := Some b\<rparr>)
                  | (None, b) \<Rightarrow> (Inr b, v'\<lparr>cache_is_scatter := Some b\<rparr>))))"

text \<open>
  \<^verbatim>\<open>x = self.group.attrs.get(key)\<close> followed by
  \<^verbatim>\<open>if x is None: x = self.signal.attrs.get(key)\<close>, lines 374-376, 437-439 and 444-446.
\<close>

definition group_or_signal_attr :: "NXdata \<Rightarrow> string \<Rightarrow> attr option" where
  "group_or_signal_attr v key =
     (case map_of (node_attrs (nx_group v)) key of
        None \<Rightarrow> map_of (attrs (signal v)) key
      | Some x \<Rightarrow> Some x)"

text \<open>Lines 385-387: the list with None written over every ".".\<close>

definition dots_to_None :: "string option list \<Rightarrow> string option list" where
  "dots_to_None names = map (\<lambda>n. if n = Some ''.'' then None else n) names"

text \<open>A write into an attribute of a node.\<close>

definition write_attr :: "node \<Rightarrow> string \<Rightarrow> attr \<Rightarrow> node" where
  "write_attr n key x =
     (case n of
        Group ga gc \<Rightarrow> Group (update_first key x ga) gc
      | Dataset d \<Rightarrow> Dataset (d\<lparr>attrs := update_first key x (attrs d)\<rparr>))"

text \<open>
  A write into an attribute of the signal dataset. \<^verbatim>\<open>self.signal\<close> is the object
  \<^verbatim>\<open>self.group[self.group.attrs["signal"]]\<close>, so the member of the group is written too.
\<close>

definition write_signal_attr :: "NXdata \<Rightarrow> string \<Rightarrow> attr \<Rightarrow> NXdata" where
  "write_signal_attr v key x =
     v\<lparr>signal := (signal v)\<lparr>attrs := update_first key x (attrs (signal v))\<rparr>,
       nx_group :=
         (case nx_group v of
            Dataset d \<Rightarrow> nx_group v
          | Group ga gc \<Rightarrow>
              (case map_of ga ''signal'' of
                 Some (AStr signal_name) \<Rightarrow>
                   (case map_of gc signal_name of
                      Some (Dataset d) \<Rightarrow>
                        Group ga (update_first signal_name (write_attr (Dataset d) key x) gc)
                    | other \<Rightarrow> nx_group v)
               | other \<Rightarrow> nx_group v))\<rparr>"

text \<open>
  Line 387, \<^verbatim>\<open>axes_dataset_names[i] = None\<close>, as the store sees it. The list written is the
  object \<^verbatim>\<open>attrs.get("axes")\<close> returned. When that is a Python list it is the list the group
  holds, or the signal dataset when the group has no @axes, and the attribute now has
  the new items. A string was wrapped in a new list (line 383), and an array is the
  reader's own: the store sees no write.
\<close>

definition store_axes :: "NXdata \<Rightarrow> string option list \<Rightarrow> NXdata" where
  "store_axes v names =
     (case map_of (node_attrs (nx_group v)) ''axes'' of
        Some (AList l) \<Rightarrow> v\<lparr>nx_group := write_attr (nx_group v) ''axes'' (AList names)\<rparr>
      | Some other \<Rightarrow> v
      | None \<Rightarrow>
          (case map_of (attrs (signal v)) ''axes'' of
             Some (AList l) \<Rightarrow> write_signal_attr v ''axes'' (AList names)
           | other \<Rightarrow> v))"

text \<open>The property \<^verbatim>\<open>axes_dataset_names\<close>, lines 374-400.\<close>

definition axes_dataset_names :: "NXdata \<Rightarrow> (error + string option list) \<times> NXdata" where
  "axes_dataset_names v =
     (let ndims = length (shape (signal v))
      in case group_or_signal_attr v ''axes'' of
           None \<Rightarrow> (Inr (replicate ndims None), v)
         | Some axes_attr \<Rightarrow>
             (case names_of axes_attr of
                Inl e \<Rightarrow> (Inl e, v)
              | Inr listed \<Rightarrow>
                  (let names = dots_to_None listed;
                       w = store_axes v names
                   in if length names \<noteq> ndims then
                        (case is_scatter w of
                           (Inl e, v') \<Rightarrow> (Inl e, v')
                         | (Inr sc, v') \<Rightarrow>
                             if sc \<and> ndims = 1 then (Inr names, v')
                             else
                               (case interpretation_prop v' of
                                  Inl e \<Rightarrow> (Inl e, v')
                                | Inr interp \<Rightarrow>
                                    (case interpdim interp of
                                       Inl e \<Rightarrow> (Inl e, v')
                                     | Inr k \<Rightarrow>
                                         if length names \<noteq> k then (Inl AssertionError, v')
                                         else (Inr (replicate (ndims - k) None @ names), v'))))
                      else (Inr names, w))))"

text \<open>Lines 238-242: the long name of every axis dataset that has one.\<close>

fun long_names :: "(string \<times> node) list \<Rightarrow> string option list \<Rightarrow> error + attr option list" where
  "long_names gc [] = Inr []"
| "long_names gc (None # rest) =
     (case long_names gc rest of Inl e \<Rightarrow> Inl e | Inr l \<Rightarrow> Inr (None # l))"
| "long_names gc (Some dsname # rest) =
     (case map_of gc dsname of
        None \<Rightarrow> Inl KeyError
      | Some n \<Rightarrow>
          (case long_names gc rest of
             Inl e \<Rightarrow> Inl e
           | Inr l \<Rightarrow>
               Inr ((case map_of (node_attrs n) ''long_name'' of
                       Some a \<Rightarrow> Some a
                     | None \<Rightarrow> Some (AStr dsname)) # l)))"

text \<open>Lines 214-230: the fields as the constructor sets them before it reads the axes.\<close>

definition fresh_view :: "node \<Rightarrow> dataset \<Rightarrow> NXdata" where
  "fresh_view grp sig =
     \<lparr>nx_group = grp, signal = sig,
      signal_is_0D = (length (shape sig) = 0),
      signal_is_1D = (length (shape sig) = 1),
      signal_is_2D = (length (shape sig) = 2),
      signal_is_3D = (length (shape sig) = 3),
      axes_names = [],
      cache_is_scatter = None, cache_axes = None\<rparr>"

text \<open>
  The constructor, lines 209-245. The validator has accepted the group when the signal
  is read, so the branches where the signal is missing are never taken. In line 245,
  \<^verbatim>\<open>self.signal_is_1D and len(self.axes) <= 1\<close>, the axes are read only when the signal
  has one dimension.
\<close>

definition NXdata_init :: "node \<Rightarrow> error + NXdata" where
  "NXdata_init grp =
     (case is_valid_NXdata grp of
        Inl e \<Rightarrow> Inl e
      | Inr False \<Rightarrow> Inl TypeError
      | Inr True \<Rightarrow>
          (case map_of (node_attrs grp) ''signal'' of
             None \<Rightarrow> Inl KeyError
           | Some (AList l) \<Rightarrow> Inl TypeError
           | Some (AArray t ts) \<Rightarrow> Inl TypeError
           | Some (AInt i) \<Rightarrow> Inl TypeError
           | Some (AStr signal_name) \<Rightarrow>
               (case map_of (members grp) signal_name of
                  None \<Rightarrow> Inl KeyError
                | Some (Group a c) \<Rightarrow> Inl AttributeError
                | Some (Dataset sig) \<Rightarrow>
                    (case axes_dataset_names (fresh_view grp sig) of
                       (Inl e, v1) \<Rightarrow> Inl e
                     | (Inr names, v1) \<Rightarrow>
                         (case long_names (members (nx_group v1)) names of
                            Inl e \<Rightarrow> Inl e
                          | Inr an \<Rightarrow>
                              if signal_is_1D v1 then
                                (case axes (v1\<lparr>axes_names := an\<rparr>) of
                                   (Inl e, v2) \<Rightarrow> Inl e
                                 | (Inr a, v2) \<Rightarrow> Inr (v2\<lparr>signal_is_1D := (length a \<le> 1)\<rparr>))
                              else Inr (v1\<lparr>axes_names := an\<rparr>))))))"

text \<open>
  Lines 415-419: the first member, in the order of the group, whose @long_name equals
  the axis name.
\<close>

fun find_long_name :: "(string \<times> node) list \<Rightarrow> string list \<Rightarrow> string \<Rightarrow> error + string option" where
  "find_long_name gc [] axis_name = Inr None"
| "find_long_name gc (item # rest) axis_name =
     (case map_of gc item of
        None \<Rightarrow> Inl KeyError
      | Some n \<Rightarrow>
          (case map_of (node_attrs n) ''long_name'' of
             None \<Rightarrow> find_long_name gc rest axis_name
           | Some long_name \<Rightarrow>
               (case eq_str long_name axis_name of
                  Inl e \<Rightarrow> Inl e
                | Inr True \<Rightarrow> Inr (Some item)
                | Inr False \<Rightarrow> find_long_name gc rest axis_name)))"

text \<open>Lines 413-419: the axis name itself, or the member whose long name it is.\<close>

definition find_axis_name :: "(string \<times> node) list \<Rightarrow> string \<Rightarrow> error + string" where
  "find_axis_name gc axis_name =
     (if map_of gc axis_name = None then
        (case find_long_name gc (map fst gc) axis_name of
           Inl e \<Rightarrow> Inl e
         | Inr (Some item) \<Rightarrow> Inr item
         | Inr None \<Rightarrow> Inr axis_name)
      else Inr axis_name)"










text \<open>The property \<^verbatim>\<open>errors\<close>, lines 468-470.\<close>

definition errors :: "NXdata \<Rightarrow> node option" where
  "errors v = map_of (members (nx_group v)) ''errors''"

text \<open>Lines 497 and 503; \<^verbatim>\<open>and\<close> reads the axes only for a scatter.\<close>

definition is_x_y_value_scatter :: "NXdata \<Rightarrow> (error + bool) \<times> NXdata" where
  "is_x_y_value_scatter v =
     (case is_scatter v of
        (Inl e, v') \<Rightarrow> (Inl e, v')
      | (Inr False, v') \<Rightarrow> (Inr False, v')
      | (Inr True, v') \<Rightarrow>
          (case axes v' of
             (Inl e, v'') \<Rightarrow> (Inl e, v'')
           | (Inr a, v'') \<Rightarrow> (Inr (length a = 2), v'')))"

definition is_unsupported_scatter :: "NXdata \<Rightarrow> (error + bool) \<times> NXdata" where
  "is_unsupported_scatter v =
     (case is_scatter v of
        (Inl e, v') \<Rightarrow> (Inl e, v')
      | (Inr False, v') \<Rightarrow> (Inr False, v')
      | (Inr True, v') \<Rightarrow>
          (case axes v' of
             (Inl e, v'') \<Rightarrow> (Inl e, v'')
           | (Inr a, v'') \<Rightarrow> (Inr (length a > 2), v'')))"

section \<open>The functions of the module\<close>

text \<open>
  Lines 506-645: each function builds a view of the group and reads one property of it,
  so it raises what the constructor or the property raises.
\<close>

definition get_axes :: "node \<Rightarrow> error + data_ref option list" where
  "get_axes grp = (case NXdata_init grp of Inl e \<Rightarrow> Inl e | Inr v \<Rightarrow> fst (axes v))"

definition get_axes_dataset_names :: "node \<Rightarrow> error + string option list" where
  "get_axes_dataset_names grp =
     (case NXdata_init grp of Inl e \<Rightarrow> Inl e | Inr v \<Rightarrow> fst (axes_dataset_names v))"

definition get_axes_names :: "node \<Rightarrow> error + attr option list" where
  "get_axes_names grp = (case NXdata_init grp of Inl e \<Rightarrow> Inl e | Inr v \<Rightarrow> Inr (axes_names v))"


definition get_signal_errors :: "node \<Rightarrow> error + node option" where
  "get_signal_errors grp = (case NXdata_init grp of Inl e \<Rightarrow> Inl e | Inr v \<Rightarrow> Inr (errors v))"

definition group_is_scatter :: "node \<Rightarrow> error + bool" where
  "group_is_scatter grp = (case NXdata_init grp of Inl e \<Rightarrow> Inl e | Inr v \<Rightarrow> fst (is_scatter v))"

definition group_is_x_y_value_scatter :: "node \<Rightarrow> error + bool" where
  "group_is_x_y_value_scatter grp =
     (case NXdata_init grp of Inl e \<Rightarrow> Inl e | Inr v \<Rightarrow> fst (is_x_y_value_scatter v))"

section \<open>Example groups\<close>

text \<open>A dataset of a given shape whose content counts up from 0, and an NXdata group
  whose signal is the child \<^verbatim>\<open>s\<close>.\<close>

definition counting :: "nat list \<Rightarrow> attrs \<Rightarrow> dataset" where
  "counting sh tab = \<lparr>shape = sh, attrs = tab, content = map int [0..<prod_list sh]\<rparr>"

definition nxdata_group :: "attrs \<Rightarrow> (string \<times> node) list \<Rightarrow> node" where
  "nxdata_group tab kids =
     Group ((''NX_class'', AStr ''NXdata'') # (''signal'', AStr ''s'') # tab) kids"

text \<open>A 1-D signal with three axes of its length and @interpretation = vertex.\<close>

definition vertex_scatter :: node where
  "vertex_scatter =
     nxdata_group [(''axes'', AArray ''x'' [''y'', ''z'']), (''interpretation'', AStr ''vertex'')]
       [(''s'', Dataset (counting [10] [])), (''x'', Dataset (counting [10] [])),
        (''y'', Dataset (counting [10] [])), (''z'', Dataset (counting [10] []))]"

text \<open>An axis of 10 elements with a child \<^verbatim>\<open>x_errors\<close> of 3 elements.\<close>

definition short_axis_errors :: node where
  "short_axis_errors =
     nxdata_group [(''axes'', AArray ''x'' [])]
       [(''s'', Dataset (counting [10] [])), (''x'', Dataset (counting [10] [])),
        (''x_errors'', Dataset (counting [3] []))]"

text \<open>The same errors dataset, named by @uncertainties instead.\<close>

definition short_axis_uncertainties :: node where
  "short_axis_uncertainties =
     nxdata_group [(''axes'', AArray ''x'' []), (''uncertainties'', AArray ''ux'' [])]
       [(''s'', Dataset (counting [10] [])), (''x'', Dataset (counting [10] [])),
        (''ux'', Dataset (counting [3] []))]"

text \<open>An axis of 8 elements whose last good index is 0.\<close>

definition last_good_zero :: node where
  "last_good_zero =
     nxdata_group [(''axes'', AArray ''x'' [])]
       [(''s'', Dataset (counting [10] [])),
        (''x'', Dataset (counting [8] [(''last_good'', AInt 0)]))]"

text \<open>An axis of 8 elements with good range 2..5, for a signal of 4 elements.\<close>

definition good_2_5 :: node where
  "good_2_5 =
     nxdata_group [(''axes'', AArray ''x'' [])]
       [(''s'', Dataset (counting [4] [])),
        (''x'', Dataset (counting [8] [(''first_good'', AInt 2), (''last_good'', AInt 5)]))]"

text \<open>@axes on the signal dataset, none on the group.\<close>

definition axes_on_signal :: node where
  "axes_on_signal =
     nxdata_group []
       [(''s'', Dataset (counting [10] [(''axes'', AArray ''x'' [])])),
        (''x'', Dataset (counting [10] []))]"



text \<open>The scatter of the specification: a signal and two axes of shape (10,).\<close>

definition xy_scatter :: node where
  "xy_scatter =
     nxdata_group [(''axes'', AArray ''x'' [''y''])]
       [(''s'', Dataset (counting [10] [])), (''x'', Dataset (counting [10] [])),
        (''y'', Dataset (counting [10] []))]"

text \<open>A 2-D signal whose @interpretation is none of the allowed values.\<close>

definition unknown_interpretation :: node where
  "unknown_interpretation =
     nxdata_group [(''interpretation'', AStr ''foo'')]
       [(''s'', Dataset (counting [4, 4] []))]"



text \<open>A scalar signal with one axis of one element.\<close>

definition scalar_signal :: node where
  "scalar_signal =
     nxdata_group [(''axes'', AArray ''x'' [])]
       [(''s'', Dataset (counting [] [])), (''x'', Dataset (counting [1] []))]"

text \<open>A scalar signal with three names in @axes, the second of which is no child.\<close>

definition scalar_three_axes :: node where
  "scalar_three_axes =
     nxdata_group [(''axes'', AArray ''x'' [''y'', ''z''])]
       [(''s'', Dataset (counting [] [])), (''x'', Dataset (counting [1] []))]"

text \<open>A signal of shape (4, 4) whose child \<^verbatim>\<open>errors\<close> is a subgroup.\<close>

definition errors_subgroup :: node where
  "errors_subgroup =
     nxdata_group []
       [(''s'', Dataset (counting [4, 4] [])), (''errors'', Group [] [])]"

text \<open>A signal of shape (4, 3) in a store that keeps @axes as a Python list; the first
  dimension has no axis.\<close>

definition dotted_list :: node where
  "dotted_list =
     nxdata_group [(''axes'', AList [Some ''.'', Some ''x''])]
       [(''s'', Dataset (counting [4, 3] [])), (''x'', Dataset (counting [3] []))]"

text \<open>The group as the constructor leaves it: None where the "." was.\<close>

definition dotted_list_after :: node where
  "dotted_list_after =
     nxdata_group [(''axes'', AList [None, Some ''x''])]
       [(''s'', Dataset (counting [4, 3] [])), (''x'', Dataset (counting [3] []))]"

text \<open>The views the constructor builds of some of these groups.\<close>

definition xy_scatter_view :: NXdata where
  "xy_scatter_view =
     (fresh_view xy_scatter (counting [10] []))
       \<lparr>signal_is_1D := False,
        axes_names := [Some (AStr ''x''), Some (AStr ''y'')],
        cache_is_scatter := Some True,
        cache_axes := Some [Some (Node (Dataset (counting [10] []))),
                            Some (Node (Dataset (counting [10] [])))]\<rparr>"

definition unknown_interpretation_view :: NXdata where
  "unknown_interpretation_view =
     (fresh_view unknown_interpretation (counting [4, 4] []))\<lparr>axes_names := [None, None]\<rparr>"



definition errors_subgroup_view :: NXdata where
  "errors_subgroup_view =
     (fresh_view errors_subgroup (counting [4, 4] []))\<lparr>axes_names := [None, None]\<rparr>"

definition dotted_list_view :: NXdata where
  "dotted_list_view =
     (fresh_view dotted_list_after (counting [4, 3] []))
       \<lparr>axes_names := [None, Some (AStr ''x'')]\<rparr>"


section \<open>Lemmas about the validator\<close>




lemma axis_len_of_dataset:
  "axis_len_of gc sz n = Inr (Inr l) \<Longrightarrow> \<exists>d. map_of gc n = Some (Dataset d)"
  by (auto simp: axis_len_of_def split: option.splits node.splits)

lemma axes_loop_datasets:
  "axes_loop gc sig us i names fl poly = Inr None \<Longrightarrow>
     None \<notin> set names \<and>
     (\<forall>s. Some s \<in> set names \<and> s \<noteq> ''.'' \<longrightarrow> (\<exists>d. map_of gc s = Some (Dataset d)))"
proof (induction names arbitrary: i fl poly)
  case Nil
  then show ?case by simp
next
  case (Cons n names)
  from Cons.prems obtain s where n: "n = Some s" by (cases n) auto
  show ?case
  proof (cases "s = ''.''")
    case True
    with Cons n show ?thesis by auto
  next
    case False
    from Cons.prems False n obtain l where
      l: "axis_len_of gc (shape_size (shape sig)) s = Inr (Inr l)"
      by (auto split: sum.splits)
    from Cons.prems False l n obtain i' fl' poly' where
      "axes_loop gc sig us i' names fl' poly' = Inr None"
      by (auto simp: Let_def split: sum.splits option.splits if_splits)
    then have "None \<notin> set names \<and>
       (\<forall>s. Some s \<in> set names \<and> s \<noteq> ''.'' \<longrightarrow> (\<exists>d. map_of gc s = Some (Dataset d)))"
      by (rule Cons.IH)
    with axis_len_of_dataset[OF l] n show ?thesis by auto
  qed
qed

lemma valid_group:
  assumes "is_valid_NXdata grp = Inr True"
  obtains ga gc signal_name sig where "grp = Group ga gc"
    and "map_of ga ''signal'' = Some (AStr signal_name)"
    and "map_of gc signal_name = Some (Dataset sig)"
  using assms
  by (cases grp)
     (auto simp: is_valid_NXdata_def is_valid_NXdata_log_def
           split: sum.splits bool.splits option.splits attr.splits node.splits)

lemma valid_axes_datasets:
  assumes "is_valid_NXdata (Group ga gc) = Inr True"
    and "map_of ga ''axes'' = Some av" and "names_of av = Inr names"
  shows "None \<notin> set names \<and>
         (\<forall>s. Some s \<in> set names \<and> s \<noteq> ''.'' \<longrightarrow> (\<exists>d. map_of gc s = Some (Dataset d)))"
proof -
  from assms obtain sig us where "axes_loop gc sig us 0 names True [] = Inr None"
    by (auto simp: is_valid_NXdata_def is_valid_NXdata_log_def check_axes_def Let_def
             split: sum.splits option.splits if_splits attr.splits node.splits bool.splits)
  then show ?thesis by (rule axes_loop_datasets)
qed

lemma axis_len_of_warning:
  "axis_len_of gc sz n = Inr (Inl w) \<Longrightarrow> w \<noteq> MoreAxesThanDims"
  by (auto simp: axis_len_of_def Let_def split: option.splits node.splits if_splits sum.splits)

lemma check_axis_errors_warning:
  "check_axis_errors gc us i n poly = Inr (Some w) \<Longrightarrow> w \<noteq> MoreAxesThanDims"
  by (auto simp: check_axis_errors_def Let_def split: option.splits if_splits sum.splits)

lemma axes_loop_warning:
  "axes_loop gc sig us i names fl poly = Inr (Some w) \<Longrightarrow> w \<noteq> MoreAxesThanDims"
proof (induction names arbitrary: i fl poly)
  case Nil
  then show ?case by simp
next
  case (Cons n names)
  show ?case
  proof (cases n)
    case None
    with Cons.prems show ?thesis by auto
  next
    case (Some s)
    show ?thesis
    proof (cases "s = ''.''")
      case True
      with Cons Some show ?thesis by auto
    next
      case False
      with Cons.prems Cons.IH Some show ?thesis
        by (auto simp: Let_def split: sum.splits option.splits if_splits
                 dest: axis_len_of_warning check_axis_errors_warning)
    qed
  qed
qed

lemma check_interpretation_warning:
  "check_interpretation ga sig k = Inr (Some w) \<Longrightarrow> w \<noteq> MoreAxesThanDims"
  by (auto simp: check_interpretation_def Let_def split: option.splits attr.splits if_splits)

lemma check_axes_warning:
  "check_axes ga gc sig av = Inr (Some w) \<Longrightarrow> length (shape sig) \<le> 1 \<Longrightarrow> w \<noteq> MoreAxesThanDims"
  by (auto simp: check_axes_def Let_def split: sum.splits option.splits if_splits
           dest: axes_loop_warning check_interpretation_warning)

lemma scalar_one_axis_loop:
  assumes "shape sig = []" "map_of gc xn = Some (Dataset x)" "shape_size (shape x) = 1"
    and "map_of (attrs x) ''first_good'' = None" "map_of (attrs x) ''last_good'' = None"
  shows "axes_loop gc sig None 0 [Some xn] True [] = Inr None"
proof -
  have sz: "shape_size (shape sig) = 1" using assms(1) by (simp add: shape_size_def)
  have len: "length (shape x) = 1 \<Longrightarrow> int (hd (shape x)) = 1"
    using assms(3) by (cases "shape x") (auto simp: shape_size_def)
  have "axis_len_of gc 1 xn = Inr (Inr 1)"
    using assms(2-5) len by (auto simp: axis_len_of_def Let_def good_length_def int_attr_def)
  then show ?thesis
    using sz by (simp add: check_axis_errors_def)
qed

section \<open>Lemmas about the view\<close>

lemma axes_Inr: "axes v = (Inr a, v') \<Longrightarrow> v' = v\<lparr>cache_axes := Some a\<rparr>"
  by (auto simp: axes_def Let_def split: option.splits sum.splits)

lemma axes_Inl: "axes v = (Inl e, v') \<Longrightarrow> v' = v"
  by (auto simp: axes_def Let_def split: option.splits sum.splits)

lemma axes_cached: "cache_axes v = Some a \<Longrightarrow> axes v = (Inr a, v)"
  by (simp add: axes_def)

lemma interpretation_prop_cong:
  "nx_group v' = nx_group v \<Longrightarrow> signal v' = signal v \<Longrightarrow> interpretation_prop v' = interpretation_prop v"
  by (simp add: interpretation_prop_def cong: option.case_cong)

lemma axes_cong:
  assumes "nx_group v' = nx_group v" "signal v' = signal v" "cache_axes v' = cache_axes v"
  shows "fst (axes v') = fst (axes v)"
  using assms interpretation_prop_cong[OF assms(1,2)]
  by (auto simp: axes_def Let_def split: option.splits sum.splits)

lemma scatter_loop_None:
  "scatter_loop sz a acc = (None, b) \<Longrightarrow>
     (b \<longleftrightarrow> acc \<and> (\<forall>x. Some x \<in> set a \<longrightarrow> (\<exists>sh. ref_shape x = Inr sh \<and> shape_size sh = sz)))"
proof (induction sz a acc rule: scatter_loop.induct)
  case (1 sigsize acc)
  then show ?case by simp
next
  case (2 sigsize rest acc)
  then show ?case by simp
next
  case (3 sigsize axis rest acc)
  then show ?case by (auto split: sum.splits)
qed

lemma scatter_loop_total:
  "(\<forall>x. Some x \<in> set a \<longrightarrow> (\<exists>sh. ref_shape x = Inr sh)) \<Longrightarrow> fst (scatter_loop sz a acc) = None"
proof (induction sz a acc rule: scatter_loop.induct)
  case (3 sigsize axis rest acc)
  then show ?case by (auto split: sum.splits)
qed simp_all

lemma is_scatter_cached: "cache_is_scatter v = Some b \<Longrightarrow> is_scatter v = (Inr b, v)"
  by (simp add: is_scatter_def)

lemma is_scatter_not_1D:
  "cache_is_scatter v = None \<Longrightarrow> \<not> signal_is_1D v \<Longrightarrow>
     is_scatter v = (Inr False, v\<lparr>cache_is_scatter := Some False\<rparr>)"
  by (simp add: is_scatter_def)

lemma is_scatter_fresh:
  assumes "cache_is_scatter v = None" "signal_is_1D v" "is_scatter v = (Inr b, v')"
  shows "\<exists>a. fst (axes v) = Inr a \<and> v' = v\<lparr>cache_is_scatter := Some b, cache_axes := Some a\<rparr>
           \<and> (b \<longleftrightarrow> (\<forall>x. Some x \<in> set a \<longrightarrow>
                  (\<exists>sh. ref_shape x = Inr sh \<and> shape_size sh = shape_size (shape (signal v)))))"
proof -
  obtain r w where ax: "axes (v\<lparr>cache_is_scatter := Some True\<rparr>) = (r, w)" by fastforce
  from assms ax obtain a where r: "r = Inr a"
    by (cases r) (auto simp: is_scatter_def)
  from ax r have w: "w = v\<lparr>cache_is_scatter := Some True, cache_axes := Some a\<rparr>"
    using axes_Inr by fastforce
  have "fst (axes (v\<lparr>cache_is_scatter := Some True\<rparr>)) = fst (axes v)"
    by (rule axes_cong) simp_all
  with ax r have fa: "fst (axes v) = Inr a" by simp
  obtain eo c where sl: "scatter_loop (shape_size (shape (signal v))) a True = (eo, c)" by fastforce
  from assms ax r sl have eo: "eo = None" and b: "c = b" and v': "v' = w\<lparr>cache_is_scatter := Some b\<rparr>"
    by (auto simp: is_scatter_def split: option.splits)
  from scatter_loop_None[of "shape_size (shape (signal v))" a True b] sl eo b
  have "b \<longleftrightarrow> (\<forall>x. Some x \<in> set a \<longrightarrow>
                  (\<exists>sh. ref_shape x = Inr sh \<and> shape_size sh = shape_size (shape (signal v))))"
    by simp
  with fa v' w show ?thesis by auto
qed

lemma is_scatter_cached_axes:
  assumes "cache_is_scatter v = None" "signal_is_1D v" "cache_axes v = Some a"
    and "\<forall>r. Some r \<in> set a \<longrightarrow> (\<exists>sh. ref_shape r = Inr sh)"
  shows "fst (is_scatter v) =
           Inr (\<forall>x. Some x \<in> set a \<longrightarrow>
                  (\<exists>sh. ref_shape x = Inr sh \<and> shape_size sh = shape_size (shape (signal v))))"
proof -
  let ?sz = "shape_size (shape (signal v))"
  have ax: "axes (v\<lparr>cache_is_scatter := Some True\<rparr>) = (Inr a, v\<lparr>cache_is_scatter := Some True\<rparr>)"
    by (rule axes_cached) (simp add: assms(3))
  obtain eo b where sl: "scatter_loop ?sz a True = (eo, b)" by fastforce
  from scatter_loop_total[OF assms(4), of ?sz True] sl have eo: "eo = None" by simp
  from scatter_loop_None[of ?sz a True b] sl eo
  have b: "b \<longleftrightarrow> (\<forall>x. Some x \<in> set a \<longrightarrow> (\<exists>sh. ref_shape x = Inr sh \<and> shape_size sh = ?sz))"
    by simp
  have "fst (is_scatter v) = Inr b"
    using assms(1,2) ax sl eo by (simp add: is_scatter_def)
  with b show ?thesis by simp
qed

lemma lookup_axes_length: "lookup_axes gc names = Inr l \<Longrightarrow> length l = length names"
  by (induction names arbitrary: l) (auto split: if_splits option.splits sum.splits)

lemma lookup_axes_datasets:
  "lookup_axes gc names = Inr l \<Longrightarrow>
   \<forall>s. Some s \<in> set names \<and> s \<noteq> ''.'' \<longrightarrow> (\<exists>d. map_of gc s = Some (Dataset d)) \<Longrightarrow>
   \<forall>x. Some x \<in> set l \<longrightarrow> is_dataset x"
proof (induction names arbitrary: l)
  case Nil
  then show ?case by simp
next
  case (Cons n names)
  from Cons.prems(1) obtain h t where l: "l = h # t" "lookup_axes gc names = Inr t"
    by (auto split: if_splits option.splits sum.splits)
  from Cons.IH[OF l(2)] Cons.prems(2) have t: "\<forall>x. Some x \<in> set t \<longrightarrow> is_dataset x" by simp
  have "\<forall>x. h = Some x \<longrightarrow> is_dataset x"
  proof (cases n)
    case None
    with Cons.prems(1) show ?thesis by (simp add: child_def)
  next
    case (Some s)
    with Cons.prems l show ?thesis
      by (auto simp: child_def is_dataset_def split: if_splits option.splits sum.splits)
  qed
  with t l show ?case by auto
qed

lemma keep_good_range_shape:
  "keep_good_range n = Inr r \<Longrightarrow> is_dataset n \<Longrightarrow> \<exists>sh. ref_shape r = Inr sh"
  by (auto simp: keep_good_range_def ref_shape_def node_shape_def is_dataset_def Let_def
           split: if_splits sum.splits node.splits)

lemma good_ranges_length: "good_ranges l = Inr a \<Longrightarrow> length a = length l"
  by (induction l arbitrary: a rule: good_ranges.induct) (auto split: sum.splits)

lemma good_ranges_shapes:
  "good_ranges l = Inr a \<Longrightarrow> \<forall>x. Some x \<in> set l \<longrightarrow> is_dataset x \<Longrightarrow>
   \<forall>r. Some r \<in> set a \<longrightarrow> (\<exists>sh. ref_shape r = Inr sh)"
proof (induction l arbitrary: a)
  case Nil
  then show ?case by simp
next
  case (Cons h rest)
  show ?case
  proof (cases h)
    case None
    with Cons.prems obtain a' where a': "good_ranges rest = Inr a'" "a = None # a'"
      by (auto split: sum.splits)
    with Cons.IH[of a'] Cons.prems show ?thesis by simp
  next
    case (Some n)
    with Cons.prems obtain r a' where a': "keep_good_range n = Inr r" "good_ranges rest = Inr a'"
      "a = Some r # a'"
      by (auto split: sum.splits)
    from Some Cons.prems have "is_dataset n" by simp
    with a'(1) have "\<exists>sh. ref_shape r = Inr sh" by (rule keep_good_range_shape)
    with Cons.IH[of a'] Cons.prems a' show ?thesis by auto
  qed
qed

subsection \<open>The write into the store\<close>

lemma map_of_update_first:
  "map_of (update_first k x l) k' =
     (if k' = k \<and> map_of l k \<noteq> None then Some x else map_of l k')"
  by (induction l) auto

lemma dots_to_None_length [simp]: "length (dots_to_None l) = length l"
  by (simp add: dots_to_None_def)

lemma dots_to_None_Some: "Some s \<in> set (dots_to_None l) \<Longrightarrow> Some s \<in> set l \<and> s \<noteq> ''.''"
  by (auto simp: dots_to_None_def split: if_splits)

lemma store_axes_fields [simp]:
  "cache_is_scatter (store_axes v n) = cache_is_scatter v"
  "cache_axes (store_axes v n) = cache_axes v"
  "signal_is_1D (store_axes v n) = signal_is_1D v"
  "axes_names (store_axes v n) = axes_names v"
  "shape (signal (store_axes v n)) = shape (signal v)"
  "content (signal (store_axes v n)) = content (signal v)"
  by (auto simp: store_axes_def write_signal_attr_def split: option.splits attr.splits)

lemma store_axes_no_group_axes:
  "map_of (node_attrs (nx_group v)) ''axes'' = None \<Longrightarrow>
     map_of (node_attrs (nx_group (store_axes v n))) ''axes'' = None"
  by (auto simp: store_axes_def write_signal_attr_def
           split: option.splits attr.splits node.splits)

lemma store_axes_group_axes:
  assumes "map_of (node_attrs (nx_group v)) ''axes'' = Some av"
  shows "members (nx_group (store_axes v n)) = members (nx_group v)"
    and "map_of (node_attrs (nx_group (store_axes v n))) ''axes''
           = Some (case av of AList l \<Rightarrow> AList n | other \<Rightarrow> av)"
  using assms
  by (auto simp: store_axes_def write_attr_def map_of_update_first
           split: option.splits attr.splits node.splits)

lemma store_axes_unchanged:
  "(\<forall>l. group_or_signal_attr v ''axes'' \<noteq> Some (AList l)) \<Longrightarrow> store_axes v n = v"
  by (auto simp: store_axes_def group_or_signal_attr_def split: option.splits attr.splits)

subsection \<open>The constructor\<close>

lemma fresh_view_sel [simp]:
  "nx_group (fresh_view grp sig) = grp"
  "signal (fresh_view grp sig) = sig"
  "signal_is_1D (fresh_view grp sig) = (length (shape sig) = 1)"
  "cache_is_scatter (fresh_view grp sig) = None"
  "cache_axes (fresh_view grp sig) = None"
  by (simp_all add: fresh_view_def)

lemma axes_dataset_names_cases:
  assumes "axes_dataset_names v = (Inr names, v')"
  shows "(group_or_signal_attr v ''axes'' = None \<and> v' = v)
       \<or> (\<exists>av listed. group_or_signal_attr v ''axes'' = Some av \<and> names_of av = Inr listed \<and>
            ((length listed = length (shape (signal v))
                \<and> v' = store_axes v (dots_to_None listed))
             \<or> (\<exists>sc. is_scatter (store_axes v (dots_to_None listed)) = (Inr sc, v'))))"
  using assms
  by (auto simp: axes_dataset_names_def Let_def
           split: option.splits sum.splits if_splits prod.splits)

lemma axes_fresh_no_attr:
  assumes "cache_axes v = None" "axes v = (Inr a, v')"
    and "map_of (node_attrs (nx_group v)) ''axes'' = None"
  shows "a = replicate (length (shape (signal v))) None"
  using assms by (auto simp: axes_def Let_def split: sum.splits)

lemma axes_fresh_attr:
  assumes "cache_axes v = None" "axes v = (Inr a, v')"
    and "map_of (node_attrs (nx_group v)) ''axes'' = Some av"
    and "names_of av = Inr names" and "length names = length (shape (signal v))"
  obtains nodes where "lookup_axes (members (nx_group v)) names = Inr nodes"
    and "good_ranges nodes = Inr a"
  using assms by (auto simp: axes_def Let_def resolve_axes_def split: sum.splits)

lemma NXdata_init_Inr:
  assumes "NXdata_init grp = Inr v"
  shows "\<exists>sig names v1 an. is_valid_NXdata grp = Inr True \<and>
    axes_dataset_names (fresh_view grp sig) = (Inr names, v1) \<and>
    ((\<exists>a v2. signal_is_1D v1 \<and> axes (v1\<lparr>axes_names := an\<rparr>) = (Inr a, v2)
        \<and> v = v2\<lparr>signal_is_1D := (length a \<le> 1)\<rparr>)
     \<or> (\<not> signal_is_1D v1 \<and> v = v1\<lparr>axes_names := an\<rparr>))"
  using assms unfolding NXdata_init_def
  by (fastforce split: sum.splits bool.splits option.splits attr.splits
       node.splits prod.splits if_splits)

lemma is_scatter_state:
  "\<exists>c s. snd (is_scatter v) = v\<lparr>cache_axes := c, cache_is_scatter := s\<rparr>"
proof -
  obtain r w where ax: "axes (v\<lparr>cache_is_scatter := Some True\<rparr>) = (r, w)" by fastforce
  have w: "\<exists>c. w = v\<lparr>cache_axes := c, cache_is_scatter := Some True\<rparr>"
  proof (cases r)
    case (Inl e)
    with ax have "w = v\<lparr>cache_is_scatter := Some True\<rparr>" using axes_Inl by blast
    then have "w = v\<lparr>cache_axes := cache_axes v, cache_is_scatter := Some True\<rparr>" by simp
    then show ?thesis by blast
  next
    case (Inr a)
    with ax have "w = v\<lparr>cache_is_scatter := Some True, cache_axes := Some a\<rparr>"
      using axes_Inr by blast
    then have "w = v\<lparr>cache_axes := Some a, cache_is_scatter := Some True\<rparr>" by simp
    then show ?thesis by blast
  qed
  have self: "v = v\<lparr>cache_axes := cache_axes v, cache_is_scatter := cache_is_scatter v\<rparr>" by simp
  show ?thesis
  proof (cases "cache_is_scatter v")
    case (Some b)
    then have "snd (is_scatter v) = v" by (simp add: is_scatter_def)
    with self show ?thesis by metis
  next
    case None
    show ?thesis
    proof (cases "signal_is_1D v")
      case False
      with None have "snd (is_scatter v) = v\<lparr>cache_is_scatter := Some False\<rparr>"
        by (simp add: is_scatter_def)
      then have "snd (is_scatter v) = v\<lparr>cache_axes := cache_axes v, cache_is_scatter := Some False\<rparr>"
        by simp
      then show ?thesis by blast
    next
      case True
      from w obtain c where c: "w = v\<lparr>cache_axes := c, cache_is_scatter := Some True\<rparr>" by blast
      obtain eo b where sl: "scatter_loop (shape_size (shape (signal v))) (case r of Inr a \<Rightarrow> a | Inl e \<Rightarrow> []) True = (eo, b)"
        by fastforce
      show ?thesis
      proof (cases r)
        case (Inl e)
        with None True ax c have "snd (is_scatter v) = v\<lparr>cache_axes := c, cache_is_scatter := Some True\<rparr>"
          by (simp add: is_scatter_def)
        then show ?thesis by blast
      next
        case (Inr a)
        with None True ax c sl
        have "snd (is_scatter v) = v\<lparr>cache_axes := c, cache_is_scatter := Some b\<rparr>"
          by (auto simp: is_scatter_def split: option.splits)
        then show ?thesis by blast
      qed
    qed
  qed
qed

lemma scatter_of_view:
  assumes "NXdata_init grp = Inr v"
  shows "fst (is_scatter v) =
           Inr (length (shape (signal v)) = 1 \<and>
                  (\<exists>a. fst (axes v) = Inr a \<and>
                    (\<forall>x. Some x \<in> set a \<longrightarrow>
                       (\<exists>sh. ref_shape x = Inr sh
                             \<and> shape_size sh = shape_size (shape (signal v))))))"
    and "length (shape (signal v)) = 1 \<longrightarrow> (\<exists>a. fst (axes v) = Inr a)"
proof -
  from assms obtain sig names v1 an where
    valid: "is_valid_NXdata grp = Inr True"
    and adn: "axes_dataset_names (fresh_view grp sig) = (Inr names, v1)"
    and fin: "(\<exists>a v2. signal_is_1D v1 \<and> axes (v1\<lparr>axes_names := an\<rparr>) = (Inr a, v2)
        \<and> v = v2\<lparr>signal_is_1D := (length a \<le> 1)\<rparr>)
     \<or> (\<not> signal_is_1D v1 \<and> v = v1\<lparr>axes_names := an\<rparr>)"
    using NXdata_init_Inr[OF assms] by blast
  let ?v0 = "fresh_view grp sig"
  let ?P = "\<lambda>a. \<forall>x. Some x \<in> set a \<longrightarrow>
              (\<exists>sh. ref_shape x = Inr sh \<and> shape_size sh = shape_size (shape sig))"
  text \<open>What the call of \<^const>\<open>axes_dataset_names\<close> left.\<close>
  from axes_dataset_names_cases[OF adn] consider
    (none) "group_or_signal_attr ?v0 ''axes'' = None" "v1 = ?v0"
    | (same) av listed where "group_or_signal_attr ?v0 ''axes'' = Some av"
        "names_of av = Inr listed" "length listed = length (shape sig)"
        "v1 = store_axes ?v0 (dots_to_None listed)"
    | (called) listed sc where
        "is_scatter (store_axes ?v0 (dots_to_None listed)) = (Inr sc, v1)"
    by auto
  then have main: "shape (signal v) = shape sig \<and>
      fst (is_scatter v) = Inr (length (shape sig) = 1 \<and> (\<exists>a. fst (axes v) = Inr a \<and> ?P a))
      \<and> (length (shape sig) = 1 \<longrightarrow> (\<exists>a. fst (axes v) = Inr a))"
  proof cases
    case none
    show ?thesis
    proof (cases "length (shape sig) = 1")
      case False
      with fin none have v: "v = ?v0\<lparr>axes_names := an\<rparr>" by auto
      then have "is_scatter v = (Inr False, v\<lparr>cache_is_scatter := Some False\<rparr>)"
        using False by (intro is_scatter_not_1D) simp_all
      with False v show ?thesis by simp
    next
      case True
      with fin none obtain a v2 where ax: "axes (?v0\<lparr>axes_names := an\<rparr>) = (Inr a, v2)"
        and v: "v = v2\<lparr>signal_is_1D := (length a \<le> 1)\<rparr>" by auto
      have v2: "v2 = ?v0\<lparr>axes_names := an, cache_axes := Some a\<rparr>"
        using axes_Inr[OF ax] by simp
      from none(1) have "map_of (node_attrs grp) ''axes'' = None"
        by (auto simp: group_or_signal_attr_def split: option.splits)
      with axes_fresh_no_attr[OF _ ax] True have a: "a = [None]" by simp
      have sel: "signal v = sig" "cache_is_scatter v = None" "cache_axes v = Some a"
        "signal_is_1D v" using v v2 a by simp_all
      have "\<forall>r. Some r \<in> set a \<longrightarrow> (\<exists>sh. ref_shape r = Inr sh)" using a by simp
      from is_scatter_cached_axes[OF sel(2) sel(4) sel(3) this] axes_cached[OF sel(3)] sel(1) True
      show ?thesis by simp
    qed
  next
    case same
    let ?w = "store_axes ?v0 (dots_to_None listed)"
    show ?thesis
    proof (cases "length (shape sig) = 1")
      case False
      with fin same have v: "v = ?w\<lparr>axes_names := an\<rparr>" by auto
      then have "is_scatter v = (Inr False, v\<lparr>cache_is_scatter := Some False\<rparr>)"
        using False by (intro is_scatter_not_1D) simp_all
      with False v show ?thesis by simp
    next
      case True
      with fin same obtain a v2 where ax: "axes (?w\<lparr>axes_names := an\<rparr>) = (Inr a, v2)"
        and v: "v = v2\<lparr>signal_is_1D := (length a \<le> 1)\<rparr>" by auto
      have v2: "v2 = ?w\<lparr>axes_names := an, cache_axes := Some a\<rparr>"
        using axes_Inr[OF ax] by simp
      have c: "cache_axes (?w\<lparr>axes_names := an\<rparr>) = None" by simp
      have a: "length a = 1 \<and> (\<forall>r. Some r \<in> set a \<longrightarrow> (\<exists>sh. ref_shape r = Inr sh))"
      proof (cases "map_of (node_attrs grp) ''axes''")
        case None
        then have "map_of (node_attrs (nx_group (?w\<lparr>axes_names := an\<rparr>))) ''axes'' = None"
          using store_axes_no_group_axes[of ?v0] by simp
        from axes_fresh_no_attr[OF c ax this] True show ?thesis by simp
      next
        case (Some gav)
        with same(1) have gav: "gav = av" by (simp add: group_or_signal_attr_def)
        from valid obtain ga gc where g: "grp = Group ga gc" by (rule valid_group)
        let ?av' = "case av of AList l \<Rightarrow> AList (dots_to_None listed) | other \<Rightarrow> av"
        have m: "members (nx_group (?w\<lparr>axes_names := an\<rparr>)) = gc"
          and at: "map_of (node_attrs (nx_group (?w\<lparr>axes_names := an\<rparr>))) ''axes'' = Some ?av'"
          using store_axes_group_axes[of ?v0 av "dots_to_None listed"] Some gav g by simp_all
        obtain names' where n': "names_of ?av' = Inr names'" "length names' = length listed"
          "\<forall>s. Some s \<in> set names' \<and> s \<noteq> ''.'' \<longrightarrow> Some s \<in> set listed"
          using same(2) by (cases av) (auto simp: names_of_def dest: dots_to_None_Some)
        from axes_fresh_attr[OF c ax at n'(1)] n'(2) same(3) m obtain nodes where
          nodes: "lookup_axes gc names' = Inr nodes" "good_ranges nodes = Inr a"
          by auto
        from valid_axes_datasets[of ga gc av listed] valid g Some gav same(2)
        have "\<forall>s. Some s \<in> set listed \<and> s \<noteq> ''.'' \<longrightarrow> (\<exists>d. map_of gc s = Some (Dataset d))"
          by simp
        with n'(3) have "\<forall>s. Some s \<in> set names' \<and> s \<noteq> ''.'' \<longrightarrow> (\<exists>d. map_of gc s = Some (Dataset d))"
          by blast
        with nodes(1) have "\<forall>x. Some x \<in> set nodes \<longrightarrow> is_dataset x"
          by (rule lookup_axes_datasets)
        with nodes(2) have "\<forall>r. Some r \<in> set a \<longrightarrow> (\<exists>sh. ref_shape r = Inr sh)"
          by (rule good_ranges_shapes)
        moreover have "length a = 1"
          using good_ranges_length[OF nodes(2)] lookup_axes_length[OF nodes(1)] n'(2) same(3) True
          by simp
        ultimately show ?thesis by simp
      qed
      have sel: "shape (signal v) = shape sig" "cache_is_scatter v = None" "cache_axes v = Some a"
        "signal_is_1D v" using v v2 a by simp_all
      from is_scatter_cached_axes[OF sel(2) sel(4) sel(3)] a axes_cached[OF sel(3)] sel(1) True
      show ?thesis by simp
    qed
  next
    case called
    let ?w = "store_axes ?v0 (dots_to_None listed)"
    show ?thesis
    proof (cases "length (shape sig) = 1")
      case False
      then have "\<not> signal_is_1D ?w" by simp
      from is_scatter_not_1D[OF _ this] called
      have sc: "sc = False" and v1: "v1 = ?w\<lparr>cache_is_scatter := Some False\<rparr>" by simp_all
      with fin False have v: "v = ?w\<lparr>cache_is_scatter := Some False, axes_names := an\<rparr>" by auto
      then have sel: "shape (signal v) = shape sig" "cache_is_scatter v = Some False" by simp_all
      from is_scatter_cached[OF sel(2)] False sel(1) show ?thesis by simp
    next
      case True
      then have "signal_is_1D ?w" by simp
      from is_scatter_fresh[OF _ this called] obtain a' where
        a': "v1 = ?w\<lparr>cache_is_scatter := Some sc, cache_axes := Some a'\<rparr>"
        and sc: "sc \<longleftrightarrow> ?P a'"
        by auto
      from fin a' True obtain a v2 where ax: "axes (v1\<lparr>axes_names := an\<rparr>) = (Inr a, v2)"
        and v: "v = v2\<lparr>signal_is_1D := (length a \<le> 1)\<rparr>" by auto
      have "axes (v1\<lparr>axes_names := an\<rparr>) = (Inr a', v1\<lparr>axes_names := an\<rparr>)"
        by (rule axes_cached) (simp add: a')
      with ax have aa: "a = a'" and v2: "v2 = v1\<lparr>axes_names := an\<rparr>" by simp_all
      have sel: "shape (signal v) = shape sig" "cache_is_scatter v = Some sc" "cache_axes v = Some a"
        using v v2 a' aa by simp_all
      from axes_cached[OF sel(3)] is_scatter_cached[OF sel(2)] sc aa True sel(1)
      show ?thesis by simp
    qed
  qed
  from main show "fst (is_scatter v) =
           Inr (length (shape (signal v)) = 1 \<and>
                  (\<exists>a. fst (axes v) = Inr a \<and>
                    (\<forall>x. Some x \<in> set a \<longrightarrow>
                       (\<exists>sh. ref_shape x = Inr sh
                             \<and> shape_size sh = shape_size (shape (signal v))))))"
    by simp
  from main show "length (shape (signal v)) = 1 \<longrightarrow> (\<exists>a. fst (axes v) = Inr a)" by simp
qed

subsection \<open>What the constructor leaves of the members of the group\<close>

lemma map_of_update_first_other: "k' \<noteq> k \<Longrightarrow> map_of (update_first k x l) k' = map_of l k'"
  by (simp add: map_of_update_first)

lemma store_axes_members:
  "map_of (members (nx_group (store_axes v n))) k = map_of (members (nx_group v)) k
   \<or> (\<exists>d d'. map_of (node_attrs (nx_group v)) ''signal'' = Some (AStr k)
         \<and> map_of (members (nx_group v)) k = Some (Dataset d)
         \<and> map_of (members (nx_group (store_axes v n))) k = Some (Dataset d')
         \<and> shape d' = shape d \<and> content d' = content d)"
  by (auto simp: store_axes_def write_attr_def write_signal_attr_def map_of_update_first
           split: option.splits attr.splits node.splits)

lemma axes_group [simp]: "nx_group (snd (axes v)) = nx_group v"
proof (cases "axes v")
  case (Pair r w)
  then show ?thesis by (cases r) (auto dest: axes_Inr axes_Inl)
qed

lemma is_scatter_group [simp]: "nx_group (snd (is_scatter v)) = nx_group v"
  using is_scatter_state[of v] by auto

lemma axes_dataset_names_group:
  "nx_group (snd (axes_dataset_names v)) = nx_group v
   \<or> (\<exists>n. nx_group (snd (axes_dataset_names v)) = nx_group (store_axes v n))"
proof (cases "group_or_signal_attr v ''axes''")
  case None
  then show ?thesis by (simp add: axes_dataset_names_def)
next
  case (Some av)
  show ?thesis
  proof (cases "names_of av")
    case (Inl e)
    with Some show ?thesis by (simp add: axes_dataset_names_def)
  next
    case (Inr listed)
    let ?w = "store_axes v (dots_to_None listed)"
    obtain r w' where sc: "is_scatter ?w = (r, w')" by fastforce
    then have "nx_group w' = nx_group ?w" using is_scatter_group[of ?w] by simp
    with Some Inr sc have "nx_group (snd (axes_dataset_names v)) = nx_group ?w"
      by (auto simp: axes_dataset_names_def Let_def split: sum.splits)
    then show ?thesis by blast
  qed
qed

lemma NXdata_init_members:
  assumes "NXdata_init grp = Inr v"
  shows "map_of (members (nx_group v)) k = map_of (members grp) k
   \<or> (\<exists>d d'. map_of (node_attrs grp) ''signal'' = Some (AStr k)
         \<and> map_of (members grp) k = Some (Dataset d)
         \<and> map_of (members (nx_group v)) k = Some (Dataset d')
         \<and> shape d' = shape d \<and> content d' = content d)"
proof -
  from NXdata_init_Inr[OF assms] obtain sig names v1 an where
    adn: "axes_dataset_names (fresh_view grp sig) = (Inr names, v1)"
    and fin: "(\<exists>a v2. signal_is_1D v1 \<and> axes (v1\<lparr>axes_names := an\<rparr>) = (Inr a, v2)
        \<and> v = v2\<lparr>signal_is_1D := (length a \<le> 1)\<rparr>)
     \<or> (\<not> signal_is_1D v1 \<and> v = v1\<lparr>axes_names := an\<rparr>)"
    by blast
  from fin have "nx_group v = nx_group v1" by (auto dest: axes_Inr)
  moreover from axes_dataset_names_group[of "fresh_view grp sig"] adn
  have "nx_group v1 = grp \<or> (\<exists>n. nx_group v1 = nx_group (store_axes (fresh_view grp sig) n))"
    by simp
  ultimately consider "nx_group v = grp"
    | n where "nx_group v = nx_group (store_axes (fresh_view grp sig) n)" by auto
  then show ?thesis
  proof cases
    case 1
    then show ?thesis by simp
  next
    case 2
    with store_axes_members[of "fresh_view grp sig" n k] show ?thesis by simp
  qed
qed

subsection \<open>The errors of an axis\<close>




lemma eq_str_not_KeyError: "eq_str x s \<noteq> Inl KeyError"
  by (auto simp: eq_str_def split: attr.splits)

lemma find_long_name_not_KeyError:
  "set items \<subseteq> fst ` set gc \<Longrightarrow> find_long_name gc items n \<noteq> Inl KeyError"
proof (induction items)
  case Nil
  then show ?case by simp
next
  case (Cons item rest)
  then have "map_of gc item \<noteq> None" by (simp add: map_of_eq_None_iff)
  with Cons eq_str_not_KeyError show ?case
    by (auto split: option.splits sum.splits bool.splits)
qed

lemma find_axis_name_not_KeyError: "find_axis_name gc name \<noteq> Inl KeyError"
  using find_long_name_not_KeyError[of "map fst gc" gc name]
  by (auto simp: find_axis_name_def split: sum.splits option.splits)







section \<open>The claims\<close>

text \<open>
  C1. The specification: the constructor raises exactly when the validator returns False,
  and for every group the validator accepts it completes. The code at \<^const>\<open>vertex_scatter\<close>, a
  1-D signal with three axes of its length and @interpretation = vertex: the validator
  returns True, and the constructor raises AssertionError, from the assertion of
  \<^const>\<open>axes\<close> (line 337) that the number of names is \<^verbatim>\<open>INTERPDIM["vertex"]\<close> = 1.
\<close>

theorem vertex_scatter_accepted_not_constructed:
  "is_valid_NXdata vertex_scatter = Inr True \<and> NXdata_init vertex_scatter = Inl AssertionError"
  by code_simp

text \<open>
  C2. The specification: when a child \<^verbatim>\<open><axis_name>_errors\<close> exists and its shape differs from the
  shape of the axis, the validator returns False. The code at
  \<^const>\<open>short_axis_errors\<close>, where \<^verbatim>\<open>x\<close> has shape (10,) and \<^verbatim>\<open>x_errors\<close> has shape (3,): the
  validator returns True and logs nothing. The same errors dataset named by
  @uncertainties is rejected.
\<close>

theorem axis_errors_child_shape_unchecked:
  "map_of (members short_axis_errors) ''x'' = Some (Dataset (counting [10] []))
   \<and> map_of (members short_axis_errors) ''x_errors'' = Some (Dataset (counting [3] []))
   \<and> shape (counting [3] []) \<noteq> shape (counting [10] [])
   \<and> is_valid_NXdata_log short_axis_errors = Inr (True, [])
   \<and> is_valid_NXdata_log short_axis_uncertainties = Inr (False, [AxisErrorsShape ''ux'' ''x''])"
  by code_simp

text \<open>
  C3. The specification: an axis that declares first_good or last_good is resolved to
  \<^verbatim>\<open>axis[first_good : last_good + 1]\<close>. The code at \<^const>\<open>last_good_zero\<close>, an axis of 8
  elements with last_good = 0: the group is valid, and the resolved axis has all 8
  elements, where \<^verbatim>\<open>axis[0:1]\<close> has one. The axis of \<^const>\<open>good_2_5\<close>, with good range
  2..5, is resolved to its 4 elements \<^verbatim>\<open>axis[2:6]\<close>.
\<close>

theorem last_good_zero_not_trimmed:
  "is_valid_NXdata last_good_zero = Inr True
   \<and> get_axes last_good_zero
       = Inr [Some (Array \<lparr>nd_shape = [8], nd_data = [0, 1, 2, 3, 4, 5, 6, 7]\<rparr>)]
   \<and> dataset_slice (counting [8] [(''last_good'', AInt 0)]) 0 (0 + 1)
       = Inr \<lparr>nd_shape = [1], nd_data = [0]\<rparr>
   \<and> get_axes good_2_5 = Inr [Some (Array \<lparr>nd_shape = [4], nd_data = [2, 3, 4, 5]\<rparr>)]"
  by code_simp

text \<open>
  C4. The specification: in every view the list of axes and the list of axis dataset names have
  the same length and are None at the same positions. The code at
  \<^const>\<open>axes_on_signal\<close>, where @axes is an attribute of the signal dataset and not of
  the group: the group is valid, the list of axes is \<^verbatim>\<open>[None]\<close> and the list of names is
  \<^verbatim>\<open>["x"]\<close>.
\<close>

theorem axes_on_signal_lists_differ:
  "is_valid_NXdata axes_on_signal = Inr True
   \<and> get_axes axes_on_signal = Inr [None]
   \<and> get_axes_dataset_names axes_on_signal = Inr [Some ''x'']"
  by code_simp




text \<open>
  C6. For every view the constructor builds, \<^const>\<open>is_scatter\<close> returns a boolean: True
  exactly when the signal has one dimension and every entry of the list of axes that is
  not None has as many elements as the signal. For a signal of one dimension the list
  of axes is there to be read; for another signal \<^const>\<open>is_scatter\<close> is False without
  reading it. A list without an entry that is not None makes a 1-D signal a scatter.
  For \<^const>\<open>xy_scatter\<close>, a signal and two axes of shape (10,), both \<^verbatim>\<open>is_scatter\<close> and
  \<^verbatim>\<open>is_x_y_value_scatter\<close> are True.
\<close>

theorem is_scatter_of_view:
  assumes "NXdata_init grp = Inr v"
  shows "fst (is_scatter v) =
           Inr (length (shape (signal v)) = 1 \<and>
                  (\<exists>a. fst (axes v) = Inr a \<and>
                    (\<forall>x. Some x \<in> set a \<longrightarrow>
                       (\<exists>sh. ref_shape x = Inr sh
                             \<and> shape_size sh = shape_size (shape (signal v))))))
         \<and> (length (shape (signal v)) = 1 \<longrightarrow> (\<exists>a. fst (axes v) = Inr a))
         \<and> is_valid_NXdata xy_scatter = Inr True
         \<and> group_is_scatter xy_scatter = Inr True
         \<and> group_is_x_y_value_scatter xy_scatter = Inr True"
proof -
  have "is_valid_NXdata xy_scatter = Inr True" by code_simp
  moreover have "group_is_scatter xy_scatter = Inr True" by code_simp
  moreover have "group_is_x_y_value_scatter xy_scatter = Inr True" by code_simp
  ultimately show ?thesis using scatter_of_view[OF assms] by simp
qed

text \<open>
  The view of \<^const>\<open>xy_scatter\<close> is a scatter. The view of
  \<^const>\<open>unknown_interpretation\<close>, a signal of two dimensions, is built although its list of
  axes cannot be read, and it is no scatter.
\<close>

theorem is_scatter_of_view_witness:
  "NXdata_init xy_scatter = Inr xy_scatter_view
   \<and> length (shape (signal xy_scatter_view)) = 1
   \<and> fst (axes xy_scatter_view)
       = Inr [Some (Node (Dataset (counting [10] []))), Some (Node (Dataset (counting [10] [])))]
   \<and> ref_shape (Node (Dataset (counting [10] []))) = Inr [10]
   \<and> shape_size [10] = shape_size (shape (signal xy_scatter_view))
   \<and> fst (is_scatter xy_scatter_view) = Inr True
   \<and> NXdata_init unknown_interpretation = Inr unknown_interpretation_view
   \<and> length (shape (signal unknown_interpretation_view)) = 2
   \<and> fst (axes unknown_interpretation_view) = Inl TypeError
   \<and> fst (is_scatter unknown_interpretation_view) = Inr False"
proof -
  have i: "NXdata_init xy_scatter = Inr xy_scatter_view" by code_simp
  have a: "fst (axes xy_scatter_view)
       = Inr [Some (Node (Dataset (counting [10] []))), Some (Node (Dataset (counting [10] [])))]"
    by code_simp
  have s: "signal xy_scatter_view = counting [10] []" by code_simp
  have sh: "shape (counting [10] []) = [10]" by code_simp
  have r: "ref_shape (Node (Dataset (counting [10] []))) = Inr [10]" by code_simp
  from is_scatter_of_view[OF i] a s sh r
  have 1: "fst (is_scatter xy_scatter_view) = Inr True" by simp
  have j: "NXdata_init unknown_interpretation = Inr unknown_interpretation_view" by code_simp
  have t: "signal unknown_interpretation_view = counting [4, 4] []" by code_simp
  have th: "shape (counting [4, 4] []) = [4, 4]" by code_simp
  have b: "fst (axes unknown_interpretation_view) = Inl TypeError" by code_simp
  from is_scatter_of_view[OF j] t th
  have 2: "fst (is_scatter unknown_interpretation_view) = Inr False" by simp
  from i a s sh r 1 j t th b 2 show ?thesis by simp
qed




text \<open>
  C8. The specification: no operation changes the group. The code at
  \<^const>\<open>dotted_list\<close>, a valid group in a store that keeps @axes as the Python list
  \<^verbatim>\<open>[".", "x"]\<close>: the constructor reads \<^const>\<open>axes_dataset_names\<close>, whose line 387 writes None
  over the "." in the list the store handed out. The group of the view it builds is
  \<^const>\<open>dotted_list_after\<close>, whose @axes is \<^verbatim>\<open>[None, "x"]\<close>, and the validator no longer
  accepts that group.
\<close>

theorem axes_attribute_overwritten:
  "is_valid_NXdata dotted_list = Inr True
   \<and> map_of (node_attrs dotted_list) ''axes'' = Some (AList [Some ''.'', Some ''x''])
   \<and> nx_group (snd (axes_dataset_names (fresh_view dotted_list (counting [4, 3] []))))
       = dotted_list_after
   \<and> NXdata_init dotted_list = Inr dotted_list_view
   \<and> nx_group dotted_list_view = dotted_list_after
   \<and> map_of (node_attrs dotted_list_after) ''axes'' = Some (AList [None, Some ''x''])
   \<and> is_valid_NXdata_log dotted_list_after = Inr (False, [AxisNotFound ''None''])"
  by code_simp

text \<open>
  C9. For a group whose signal dataset has no dimension the validator never logs that
  there are more axes than dimensions, however many names @axes lists. When @axes names
  one dataset with one element, and the group has no @uncertainties, no good range on
  that dataset and no child \<^verbatim>\<open>errors\<close>, the validator returns True.
\<close>

theorem scalar_signal_axes:
  assumes "map_of ga ''signal'' = Some (AStr signal_name)"
    and "map_of gc signal_name = Some (Dataset sig)"
    and "shape sig = []"
  shows "(\<forall>b ws. is_valid_NXdata_log (Group ga gc) = Inr (b, ws) \<longrightarrow> MoreAxesThanDims \<notin> set ws)
         \<and> (map_of ga ''NX_class'' = Some (AStr ''NXdata'')
              \<and> map_of ga ''axes'' = Some av \<and> names_of av = Inr [Some xn]
              \<and> map_of gc xn = Some (Dataset x) \<and> shape_size (shape x) = 1
              \<and> map_of (attrs x) ''first_good'' = None \<and> map_of (attrs x) ''last_good'' = None
              \<and> map_of ga ''uncertainties'' = None \<and> map_of (attrs sig) ''uncertainties'' = None
              \<and> map_of gc ''errors'' = None
            \<longrightarrow> is_valid_NXdata (Group ga gc) = Inr True)"
proof (intro conjI allI impI)
  fix b ws
  assume r: "is_valid_NXdata_log (Group ga gc) = Inr (b, ws)"
  show "MoreAxesThanDims \<notin> set ws"
  proof
    assume m: "MoreAxesThanDims \<in> set ws"
    from r m assms obtain av' where "check_axes ga gc sig av' = Inr (Some MoreAxesThanDims)"
      by (auto simp: is_valid_NXdata_log_def check_signal_errors_def
               split: if_splits option.splits sum.splits node.splits bool.splits)
    from check_axes_warning[OF this] assms(3) show False by simp
  qed
next
  assume h: "map_of ga ''NX_class'' = Some (AStr ''NXdata'')
              \<and> map_of ga ''axes'' = Some av \<and> names_of av = Inr [Some xn]
              \<and> map_of gc xn = Some (Dataset x) \<and> shape_size (shape x) = 1
              \<and> map_of (attrs x) ''first_good'' = None \<and> map_of (attrs x) ''last_good'' = None
              \<and> map_of ga ''uncertainties'' = None \<and> map_of (attrs sig) ''uncertainties'' = None
              \<and> map_of gc ''errors'' = None"
  then have loop: "axes_loop gc sig None 0 [Some xn] True [] = Inr None"
    using scalar_one_axis_loop[OF assms(3)] by blast
  have "check_axes ga gc sig av = Inr None"
    using h loop assms(3) by (simp add: check_axes_def uncertainties_names_of_def)
  then show "is_valid_NXdata (Group ga gc) = Inr True"
    using h assms(1,2)
    by (simp add: is_valid_NXdata_def is_valid_NXdata_log_def check_signal_errors_def
          not_NXdata_def ne_str_def)
qed

text \<open>
  A scalar signal with its one axis is accepted; with three names in @axes, of which the
  second is no member, the validator logs that it cannot find that axis.
\<close>

theorem scalar_signal_axes_witness:
  "is_valid_NXdata scalar_signal = Inr True
   \<and> is_valid_NXdata_log scalar_three_axes = Inr (False, [AxisNotFound ''y''])
   \<and> MoreAxesThanDims \<notin> set [AxisNotFound ''y'']"
proof -
  let ?gc = "[(''s'', Dataset (counting [] [])), (''x'', Dataset (counting [1] []))]"
  let ?ga3 = "[(''NX_class'', AStr ''NXdata''), (''signal'', AStr ''s''),
               (''axes'', AArray ''x'' [''y'', ''z''])]"
  let ?ga1 = "[(''NX_class'', AStr ''NXdata''), (''signal'', AStr ''s''),
               (''axes'', AArray ''x'' [])]"
  have a: "is_valid_NXdata_log scalar_three_axes = Inr (False, [AxisNotFound ''y''])"
    by code_simp
  have g3: "scalar_three_axes = Group ?ga3 ?gc"
    by (simp add: scalar_three_axes_def nxdata_group_def)
  have "\<forall>b ws. is_valid_NXdata_log (Group ?ga3 ?gc) = Inr (b, ws) \<longrightarrow> MoreAxesThanDims \<notin> set ws"
    using scalar_signal_axes[of ?ga3 "''s''" ?gc "counting [] []"]
    by (simp add: counting_def)
  with a g3 have 1: "MoreAxesThanDims \<notin> set [AxisNotFound ''y'']"
    by metis
  have g1: "scalar_signal = Group ?ga1 ?gc"
    by (simp add: scalar_signal_def nxdata_group_def)
  have 2: "is_valid_NXdata scalar_signal = Inr True"
    using scalar_signal_axes[of ?ga1 "''s''" ?gc "counting [] []" "AArray ''x'' []" "''x''"
            "counting [1] []"] g1
    by (simp add: counting_def names_of_def array_items_def shape_size_def)
  from a 1 2 show ?thesis by simp
qed

text \<open>
  C10. In a view the constructor has built, \<^const>\<open>errors\<close> is None exactly when the group
  given to the constructor has no member called \<^verbatim>\<open>errors\<close>. When that member is a subgroup,
  \<^const>\<open>errors\<close> is the subgroup: the validator compares no shape for it, so the value
  returned need not be a dataset. When that member is a dataset, \<^const>\<open>errors\<close> is a dataset of
  the same shape and content; and unless @signal names the member \<^verbatim>\<open>errors\<close> itself,
  \<^const>\<open>errors\<close> is the member as the group given to the constructor has it.
\<close>

theorem signal_errors_any_child:
  assumes "NXdata_init grp = Inr v"
  shows "(errors v = None \<longleftrightarrow> ''errors'' \<notin> fst ` set (members grp))
         \<and> (\<forall>a c. map_of (members grp) ''errors'' = Some (Group a c) \<longrightarrow>
               errors v = Some (Group a c) \<and> \<not> is_dataset (Group a c)
               \<and> check_signal_errors (members grp) (signal v) = None)
         \<and> (\<forall>d. map_of (members grp) ''errors'' = Some (Dataset d) \<longrightarrow>
               (\<exists>d'. errors v = Some (Dataset d') \<and> shape d' = shape d
                      \<and> content d' = content d))
         \<and> (map_of (node_attrs grp) ''signal'' \<noteq> Some (AStr ''errors'') \<longrightarrow>
               errors v = map_of (members grp) ''errors'')"
proof -
  let ?m = "map_of (members grp) ''errors''"
  have none: "?m = None \<longleftrightarrow> ''errors'' \<notin> fst ` set (members grp)"
    by (rule map_of_eq_None_iff)
  from NXdata_init_members[OF assms, of "''errors''"]
  have m: "errors v = ?m
     \<or> (\<exists>d d'. map_of (node_attrs grp) ''signal'' = Some (AStr ''errors'')
           \<and> ?m = Some (Dataset d) \<and> errors v = Some (Dataset d')
           \<and> shape d' = shape d \<and> content d' = content d)"
    by (simp add: errors_def)
  then have 1: "errors v = None \<longleftrightarrow> ''errors'' \<notin> fst ` set (members grp)"
    using none by auto
  from m have 2: "\<forall>a c. ?m = Some (Group a c) \<longrightarrow>
               errors v = Some (Group a c) \<and> \<not> is_dataset (Group a c)
               \<and> check_signal_errors (members grp) (signal v) = None"
    by (auto simp: is_dataset_def check_signal_errors_def)
  from m have 3: "\<forall>d. ?m = Some (Dataset d) \<longrightarrow>
               (\<exists>d'. errors v = Some (Dataset d') \<and> shape d' = shape d
                      \<and> content d' = content d)"
    by auto
  from m have 4: "map_of (node_attrs grp) ''signal'' \<noteq> Some (AStr ''errors'') \<longrightarrow>
               errors v = ?m"
    by auto
  from 1 2 3 4 show ?thesis by blast
qed

text \<open>The group \<^const>\<open>errors_subgroup\<close> is valid, and the errors of its view are a group.\<close>

theorem signal_errors_any_child_witness:
  "is_valid_NXdata errors_subgroup = Inr True
   \<and> NXdata_init errors_subgroup = Inr errors_subgroup_view
   \<and> map_of (members errors_subgroup) ''errors'' = Some (Group [] [])
   \<and> errors errors_subgroup_view = Some (Group [] [])
   \<and> \<not> is_dataset (Group [] [])"
proof -
  have v: "is_valid_NXdata errors_subgroup = Inr True" by code_simp
  have i: "NXdata_init errors_subgroup = Inr errors_subgroup_view" by code_simp
  have m: "map_of (members errors_subgroup) ''errors'' = Some (Group [] [])" by code_simp
  from signal_errors_any_child[OF i] m
  have "errors errors_subgroup_view = Some (Group [] []) \<and> \<not> is_dataset (Group [] [])"
    by simp
  with v i m show ?thesis by simp
qed

end
